theory Spec2Isabelle
  imports Main "HOL-Library.Word"
begin

section \<open>Values shared by the packages\<close>

text \<open>
  \<open>common.Hash\<close> is a 32-byte array and \<open>common.Address\<close> a 20-byte array; the zero
  value \<open>common.Hash{}\<close> is the word 0. Go's \<open>uint64\<close> is a 64-bit word and \<open>*big.Int\<close>
  an unbounded integer behind a pointer (\<open>None\<close> is the nil pointer). A byte string is
  written as its hex digits, two per byte, the way the sources give them to
  \<open>hexutil.MustDecode\<close> (without the leading 0x).
\<close>

type_synonym hash = "256 word"
type_synonym address = "160 word"
type_synonym uint64 = "64 word"
type_synonym bytes = string

text \<open>A Go call either returns or panics (nil dereference, division by zero).\<close>

datatype 'a result = Panic | Ret 'a

text \<open>
  \<open>params.ConfigCompatError\<close>, with the fields the test file of package core spells out.
\<close>

record ConfigCompatError =
  What :: string
  StoredConfig :: "int option"
  NewConfig :: "int option"
  RewindTo :: uint64

text \<open>
  The error values the modelled functions return, by their message:
  \<open>errGenesisNoConfig\<close> ``genesis has no chain configuration'';
  \<open>GenesisMismatchError\<close> with the stored and the new hash;
  \<open>CompatError\<close>, a \<open>*params.ConfigCompatError\<close>;
  \<open>ErrCommitNumber\<close> ``can't commit genesis block with number > 0'';
  \<open>ErrMissingBlockNumber\<close> ``missing block number for head header hash'';
  \<open>ErrLightSync\<close> with its message, which names the package;
  \<open>ErrInvalidSyncMode\<close> ``invalid sync mode %d'';
  \<open>ErrVersionMismatch\<close> ``Blockchain DB version mismatch (%d / %d). Run taipublic upgradedb.'';
  \<open>ErrInvalidPeerConfig\<close> ``invalid peer config: light peer count (%d) >= total peer count (%d)'';
  \<open>ErrPbftServerFailed\<close> ``start pbft server failed.'';
  \<open>ErrCoinbaseUnspecified\<close> ``coinbase must be explicitly specified'';
  \<open>ErrCoinbaseMissing\<close> ``coinbase missing: %v'' around another error;
  \<open>ErrExternal\<close>, an error that a collaborator returns.
\<close>

datatype error =
    errGenesisNoConfig
  | GenesisMismatchError hash hash
  | CompatError ConfigCompatError
  | ErrCommitNumber
  | ErrMissingBlockNumber
  | ErrLightSync string
  | ErrInvalidSyncMode "64 word"
  | ErrVersionMismatch int int
  | ErrInvalidPeerConfig "64 word" "64 word"
  | ErrPbftServerFailed
  | ErrCoinbaseUnspecified
  | ErrCoinbaseMissing error
  | ErrExternal nat

section \<open>Package core: the genesis specification\<close>

text \<open>
  Modelled from the spec: \<open>types.CommitteeMember\<close> is not under src/; a committee member
  is \<open>{coinbase, publicKey, flag, type}\<close> with flag in Used, Unused, Removed and type in
  Fixed, Elected. \<open>FlagUnset\<close> and \<open>TypeUnset\<close> are the Go zero values that a composite
  literal without these fields leaves.

  Field names of records share one name space, so the fields of the structs other
  than \<open>Genesis\<close> carry a prefix (\<open>m_\<close>, \<open>a_\<close>, \<open>h_\<close>, \<open>b_\<close>, \<open>sh_\<close>, \<open>sb_\<close>).
\<close>

datatype member_flag = FlagUnset | StateUsedFlag | StateUnusedFlag | StateRemovedFlag
datatype member_type = TypeUnset | TypeFixed | TypeElected

record CommitteeMember =
  m_Coinbase :: address
  m_CommitteeBase :: address
  m_Publickey :: bytes
  m_Flag :: member_flag
  m_MType :: member_type

record GenesisAccount =
  a_Code :: bytes
  a_Storage :: "hash \<rightharpoonup> hash"
  a_Balance :: int
  a_Nonce :: uint64
  a_PrivateKey :: bytes

type_synonym GenesisAlloc = "address \<rightharpoonup> GenesisAccount"

record 'cfg Genesis =
  Config :: "'cfg option"
  Nonce :: uint64
  Timestamp :: uint64
  ExtraData :: bytes
  GasLimit :: uint64
  Difficulty :: "int option"
  Mixhash :: hash
  Coinbase :: address
  Alloc :: GenesisAlloc
  Committee :: "CommitteeMember list"
  Number :: uint64
  GasUsed :: uint64
  ParentHash :: hash

text \<open>
  The fast header and block as \<open>ToFastBlock\<close> fills them: \<open>types.NewBlock(head, nil, nil,
  nil, members)\<close> keeps the header and the committee members.
\<close>

record Header =
  h_Number :: int
  h_Time :: int
  h_ParentHash :: hash
  h_Extra :: bytes
  h_GasLimit :: uint64
  h_GasUsed :: uint64
  h_Root :: hash

record Block =
  b_header :: Header
  b_infos :: "CommitteeMember list"

text \<open>
  The snail header as \<open>ToSnailBlock\<close> fills it; a field the literal leaves out has its
  zero value. A snail block carries its fruits, which are snail blocks themselves.
\<close>

record SnailHeader =
  sh_Number :: int
  sh_Nonce :: uint64
  sh_Time :: int
  sh_ParentHash :: hash
  sh_Extra :: bytes
  sh_Difficulty :: "int option"
  sh_MixDigest :: hash
  sh_Coinbase :: address
  sh_FastNumber :: "int option"
  sh_FastHash :: hash
  sh_FruitDifficulty :: "int option"

datatype SnailBlock = SnailBlock (sb_header: SnailHeader) (sb_fruits: "SnailBlock list")

type_synonym PublicKey = "int \<times> int"

text \<open>
  What the genesis code takes from packages that are not under src/ (params, crypto,
  core/state, core/types): the named chain configurations, the genesis hashes of the
  test network, the protocol constants, the compatibility check of two chain
  configurations, public-key decoding, the state root of an allocation and the hash of
  a block.
\<close>

record 'cfg extern =
  AllMinervaProtocolChanges :: 'cfg
  MainnetChainConfig :: 'cfg
  TestnetChainConfig :: 'cfg
  TestnetGenesisHash :: hash
  TestnetSnailGenesisHash :: hash
  GenesisGasLimit :: uint64
  GenesisDifficulty :: int
  FruitBlockRatio :: int
  CheckCompatible :: "'cfg \<Rightarrow> 'cfg \<Rightarrow> uint64 \<Rightarrow> ConfigCompatError option"
  UnmarshalPubkey :: "bytes \<Rightarrow> PublicKey option"
  PubkeyToAddress :: "PublicKey \<Rightarrow> address"
  IntermediateRoot :: "GenesisAlloc \<Rightarrow> hash"
  BlockHash :: "Block \<Rightarrow> hash"
  SnailBlockHash :: "SnailBlock \<Rightarrow> hash"

text \<open>
  Modelled from the spec: the accessors of core/rawdb and core/snailchain/rawdb are not
  under src/. The database is shared by the two chains with disjoint key spaces, so it
  is a record of typed tables, one per key prefix: canonical hash by number, header
  number by hash, block by hash and number, receipts, head pointers, chain
  configuration by genesis hash, the committed state tries, and the snail equivalents
  with the total difficulty and the fruit lookup entries.
\<close>

record 'cfg Database =
  canonicalHash :: "uint64 \<rightharpoonup> hash"
  headerNumber :: "hash \<rightharpoonup> uint64"
  blocks :: "hash \<times> uint64 \<rightharpoonup> Block"
  receipts :: "hash \<times> uint64 \<rightharpoonup> bytes list"
  headBlockHash :: "hash option"
  headHeaderHash :: "hash option"
  stateGcBR :: "uint64 option"
  chainConfigs :: "hash \<rightharpoonup> 'cfg"
  stateTries :: "hash \<rightharpoonup> GenesisAlloc"
  snailCanonicalHash :: "uint64 \<rightharpoonup> hash"
  snailHeaderNumber :: "hash \<rightharpoonup> uint64"
  snailBlocks :: "hash \<times> uint64 \<rightharpoonup> SnailBlock"
  snailTd :: "hash \<times> uint64 \<rightharpoonup> int option"
  ftLookup :: "hash \<rightharpoonup> hash \<times> uint64 \<times> nat"
  snailHeadBlockHash :: "hash option"
  snailHeadHeaderHash :: "hash option"
  snailChainConfigs :: "hash \<rightharpoonup> 'cfg"
  databaseVersion :: "int option"

definition NewMemDatabase :: "'cfg Database" where
  "NewMemDatabase = \<lparr>canonicalHash = Map.empty, headerNumber = Map.empty, blocks = Map.empty,
     receipts = Map.empty, headBlockHash = None, headHeaderHash = None, stateGcBR = None,
     chainConfigs = Map.empty, stateTries = Map.empty, snailCanonicalHash = Map.empty,
     snailHeaderNumber = Map.empty, snailBlocks = Map.empty, snailTd = Map.empty,
     ftLookup = Map.empty, snailHeadBlockHash = None, snailHeadHeaderHash = None,
     snailChainConfigs = Map.empty, databaseVersion = None\<rparr>"


subsection \<open>Database accessors\<close>

definition ReadCanonicalHash :: "'cfg Database \<Rightarrow> uint64 \<Rightarrow> hash" where
  "ReadCanonicalHash db n = (case canonicalHash db n of None \<Rightarrow> 0 | Some h \<Rightarrow> h)"

definition WriteCanonicalHash :: "'cfg Database \<Rightarrow> hash \<Rightarrow> uint64 \<Rightarrow> 'cfg Database" where
  "WriteCanonicalHash db h n = db\<lparr>canonicalHash := (canonicalHash db)(n \<mapsto> h)\<rparr>"

definition NumberU64 :: "Block \<Rightarrow> uint64" where
  "NumberU64 b = word_of_int (h_Number (b_header b))"

definition WriteBlock :: "'cfg extern \<Rightarrow> 'cfg Database \<Rightarrow> Block \<Rightarrow> 'cfg Database" where
  "WriteBlock X db b =
     db\<lparr>blocks := (blocks db)((BlockHash X b, NumberU64 b) \<mapsto> b),
        headerNumber := (headerNumber db)(BlockHash X b \<mapsto> NumberU64 b)\<rparr>"

definition ReadBlock :: "'cfg Database \<Rightarrow> hash \<Rightarrow> uint64 \<Rightarrow> Block option" where
  "ReadBlock db h n = blocks db (h, n)"

definition WriteReceipts :: "'cfg Database \<Rightarrow> hash \<Rightarrow> uint64 \<Rightarrow> bytes list \<Rightarrow> 'cfg Database" where
  "WriteReceipts db h n rs = db\<lparr>receipts := (receipts db)((h, n) \<mapsto> rs)\<rparr>"

definition WriteHeadBlockHash :: "'cfg Database \<Rightarrow> hash \<Rightarrow> 'cfg Database" where
  "WriteHeadBlockHash db h = db\<lparr>headBlockHash := Some h\<rparr>"

definition WriteHeadHeaderHash :: "'cfg Database \<Rightarrow> hash \<Rightarrow> 'cfg Database" where
  "WriteHeadHeaderHash db h = db\<lparr>headHeaderHash := Some h\<rparr>"

definition ReadHeadHeaderHash :: "'cfg Database \<Rightarrow> hash" where
  "ReadHeadHeaderHash db = (case headHeaderHash db of None \<Rightarrow> 0 | Some h \<Rightarrow> h)"

definition ReadHeaderNumber :: "'cfg Database \<Rightarrow> hash \<Rightarrow> uint64 option" where
  "ReadHeaderNumber db h = headerNumber db h"

definition WriteStateGcBR :: "'cfg Database \<Rightarrow> uint64 \<Rightarrow> 'cfg Database" where
  "WriteStateGcBR db n = db\<lparr>stateGcBR := Some n\<rparr>"

definition ReadChainConfig :: "'cfg Database \<Rightarrow> hash \<Rightarrow> 'cfg option" where
  "ReadChainConfig db h = chainConfigs db h"

text \<open>Writing a nil configuration stores nothing.\<close>

definition WriteChainConfig :: "'cfg Database \<Rightarrow> hash \<Rightarrow> 'cfg option \<Rightarrow> 'cfg Database" where
  "WriteChainConfig db h cfg =
     (case cfg of None \<Rightarrow> db | Some c \<Rightarrow> db\<lparr>chainConfigs := (chainConfigs db)(h \<mapsto> c)\<rparr>)"

definition snail_ReadCanonicalHash :: "'cfg Database \<Rightarrow> uint64 \<Rightarrow> hash" where
  "snail_ReadCanonicalHash db n = (case snailCanonicalHash db n of None \<Rightarrow> 0 | Some h \<Rightarrow> h)"

definition snail_WriteCanonicalHash :: "'cfg Database \<Rightarrow> hash \<Rightarrow> uint64 \<Rightarrow> 'cfg Database" where
  "snail_WriteCanonicalHash db h n = db\<lparr>snailCanonicalHash := (snailCanonicalHash db)(n \<mapsto> h)\<rparr>"

definition snail_NumberU64 :: "SnailBlock \<Rightarrow> uint64" where
  "snail_NumberU64 b = word_of_int (sh_Number (sb_header b))"

definition snail_WriteTd :: "'cfg Database \<Rightarrow> hash \<Rightarrow> uint64 \<Rightarrow> int option \<Rightarrow> 'cfg Database" where
  "snail_WriteTd db h n td = db\<lparr>snailTd := (snailTd db)((h, n) \<mapsto> td)\<rparr>"

definition snail_ReadTd :: "'cfg Database \<Rightarrow> hash \<Rightarrow> uint64 \<Rightarrow> int option" where
  "snail_ReadTd db h n = (case snailTd db (h, n) of None \<Rightarrow> None | Some td \<Rightarrow> td)"

definition snail_WriteBlock :: "'cfg extern \<Rightarrow> 'cfg Database \<Rightarrow> SnailBlock \<Rightarrow> 'cfg Database" where
  "snail_WriteBlock X db b =
     db\<lparr>snailBlocks := (snailBlocks db)((SnailBlockHash X b, snail_NumberU64 b) \<mapsto> b),
        snailHeaderNumber := (snailHeaderNumber db)(SnailBlockHash X b \<mapsto> snail_NumberU64 b)\<rparr>"

definition snail_ReadBlock :: "'cfg Database \<Rightarrow> hash \<Rightarrow> uint64 \<Rightarrow> SnailBlock option" where
  "snail_ReadBlock db h n = snailBlocks db (h, n)"

text \<open>One lookup entry per fruit, keyed by the fast hash the fruit refers to.\<close>

fun ftEntries :: "hash \<Rightarrow> uint64 \<Rightarrow> nat \<Rightarrow> SnailBlock list \<Rightarrow> (hash \<rightharpoonup> hash \<times> uint64 \<times> nat)
    \<Rightarrow> (hash \<rightharpoonup> hash \<times> uint64 \<times> nat)" where
  "ftEntries h n i [] t = t"
| "ftEntries h n i (f # fs) t = ftEntries h n (Suc i) fs (t(sh_FastHash (sb_header f) \<mapsto> (h, n, i)))"

definition snail_WriteFtLookupEntries :: "'cfg extern \<Rightarrow> 'cfg Database \<Rightarrow> SnailBlock \<Rightarrow> 'cfg Database" where
  "snail_WriteFtLookupEntries X db b =
     db\<lparr>ftLookup := ftEntries (SnailBlockHash X b) (snail_NumberU64 b) 0 (sb_fruits b) (ftLookup db)\<rparr>"

definition snail_WriteHeadBlockHash :: "'cfg Database \<Rightarrow> hash \<Rightarrow> 'cfg Database" where
  "snail_WriteHeadBlockHash db h = db\<lparr>snailHeadBlockHash := Some h\<rparr>"

definition snail_WriteHeadHeaderHash :: "'cfg Database \<Rightarrow> hash \<Rightarrow> 'cfg Database" where
  "snail_WriteHeadHeaderHash db h = db\<lparr>snailHeadHeaderHash := Some h\<rparr>"

definition snail_WriteChainConfig :: "'cfg Database \<Rightarrow> hash \<Rightarrow> 'cfg option \<Rightarrow> 'cfg Database" where
  "snail_WriteChainConfig db h cfg =
     (case cfg of None \<Rightarrow> db | Some c \<Rightarrow> db\<lparr>snailChainConfigs := (snailChainConfigs db)(h \<mapsto> c)\<rparr>)"

text \<open>A database without a version entry reads as version 0.\<close>

definition ReadDatabaseVersion :: "'cfg Database \<Rightarrow> int" where
  "ReadDatabaseVersion db = (case databaseVersion db of None \<Rightarrow> 0 | Some v \<Rightarrow> v)"

definition WriteDatabaseVersion :: "'cfg Database \<Rightarrow> int \<Rightarrow> 'cfg Database" where
  "WriteDatabaseVersion db v = db\<lparr>databaseVersion := Some v\<rparr>"

subsection \<open>Building the genesis blocks\<close>

text \<open>
  \<open>big.Int.Div\<close> is Euclidean division (the remainder is never negative) and panics on
  a zero divisor.
\<close>

definition big_Div :: "int \<Rightarrow> int \<Rightarrow> int result" where
  "big_Div x y = (if y = 0 then Panic else if 0 < y then Ret (x div y) else Ret (- (x div (- y))))"

text \<open>
  The loop of \<open>ToFastBlock\<close> over the committee: the decoding error is dropped, so a key
  that does not decode leaves a nil pointer, and dereferencing it panics.
\<close>

fun markCommittee :: "'cfg extern \<Rightarrow> CommitteeMember list \<Rightarrow> CommitteeMember list result" where
  "markCommittee X [] = Ret []"
| "markCommittee X (member # rest) =
     (case UnmarshalPubkey X (m_Publickey member) of
        None \<Rightarrow> Panic
      | Some pubkey \<Rightarrow>
          (case markCommittee X rest of
             Panic \<Rightarrow> Panic
           | Ret rest' \<Rightarrow>
               Ret (member\<lparr>m_Flag := StateUsedFlag, m_MType := TypeFixed,
                           m_CommitteeBase := PubkeyToAddress X pubkey\<rparr> # rest')))"

text \<open>
  \<open>ToFastBlock\<close> returns the block, the specification with its committee members marked
  (they are updated in place), and the database the state went to: the given one, or a
  fresh in-memory database when the argument is nil.
\<close>

definition ToFastBlock ::
  "'cfg extern \<Rightarrow> 'cfg Database option \<Rightarrow> 'cfg Genesis \<Rightarrow> (Block \<times> 'cfg Genesis \<times> 'cfg Database) result" where
  "ToFastBlock X dbo g =
     (let db = (case dbo of None \<Rightarrow> NewMemDatabase | Some d \<Rightarrow> d);
          root = IntermediateRoot X (Alloc g);
          head = \<lparr>h_Number = uint (Number g), h_Time = uint (Timestamp g),
                  h_ParentHash = ParentHash g, h_Extra = ExtraData g,
                  h_GasLimit = (if GasLimit g = 0 then GenesisGasLimit X else GasLimit g),
                  h_GasUsed = GasUsed g, h_Root = root\<rparr>;
          db1 = db\<lparr>stateTries := (stateTries db)(root \<mapsto> Alloc g)\<rparr>
      in case markCommittee X (Committee g) of
           Panic \<Rightarrow> Panic
         | Ret members \<Rightarrow> Ret (\<lparr>b_header = head, b_infos = members\<rparr>, g\<lparr>Committee := members\<rparr>, db1))"

text \<open>
  \<open>ToSnailBlock\<close> fills a nil difficulty with \<open>params.GenesisDifficulty\<close>, in the header
  and in the specification, and embeds one fruit that refers to the genesis fast block.
\<close>

definition ToSnailBlock ::
  "'cfg extern \<Rightarrow> 'cfg Database option \<Rightarrow> 'cfg Genesis \<Rightarrow> (SnailBlock \<times> 'cfg Genesis \<times> 'cfg Database) result" where
  "ToSnailBlock X dbo g =
     (let db = (case dbo of None \<Rightarrow> NewMemDatabase | Some d \<Rightarrow> d);
          d = (case Difficulty g of None \<Rightarrow> GenesisDifficulty X | Some d \<Rightarrow> d);
          head = \<lparr>sh_Number = uint (Number g), sh_Nonce = Nonce g, sh_Time = uint (Timestamp g),
                  sh_ParentHash = ParentHash g, sh_Extra = ExtraData g, sh_Difficulty = Some d,
                  sh_MixDigest = Mixhash g, sh_Coinbase = Coinbase g, sh_FastNumber = None,
                  sh_FastHash = 0, sh_FruitDifficulty = None\<rparr>;
          g1 = g\<lparr>Difficulty := Some d\<rparr>
      in case ToFastBlock X (Some db) g1 of
           Panic \<Rightarrow> Panic
         | Ret (fastBlock, g2, db1) \<Rightarrow>
             (case big_Div d (FruitBlockRatio X) of
                Panic \<Rightarrow> Panic
              | Ret fd \<Rightarrow>
                  (let fruitHead = \<lparr>sh_Number = uint (Number g2), sh_Nonce = Nonce g2,
                         sh_Time = uint (Timestamp g2), sh_ParentHash = ParentHash g2, sh_Extra = [],
                         sh_Difficulty = None, sh_MixDigest = 0, sh_Coinbase = Coinbase g2,
                         sh_FastNumber = Some (h_Number (b_header fastBlock)),
                         sh_FastHash = BlockHash X fastBlock, sh_FruitDifficulty = Some fd\<rparr>;
                       fruit = SnailBlock fruitHead []
                   in Ret (SnailBlock head [fruit], g2, db1))))"

text \<open>
  \<open>CommitFast\<close> and \<open>CommitSnail\<close> return the block (nil with the error), the error,
  the updated specification and the database.
\<close>

definition CommitFast ::
  "'cfg extern \<Rightarrow> 'cfg Database \<Rightarrow> 'cfg Genesis
     \<Rightarrow> ((Block option \<times> error option) \<times> 'cfg Genesis \<times> 'cfg Database) result" where
  "CommitFast X db g =
     (case ToFastBlock X (Some db) g of
        Panic \<Rightarrow> Panic
      | Ret (block, g1, db1) \<Rightarrow>
          if h_Number (b_header block) \<noteq> 0 then Ret ((None, Some ErrCommitNumber), g1, db1)
          else
            (let db2 = WriteBlock X db1 block;
                 db3 = WriteReceipts db2 (BlockHash X block) (NumberU64 block) [];
                 db4 = WriteCanonicalHash db3 (BlockHash X block) (NumberU64 block);
                 db5 = WriteHeadBlockHash db4 (BlockHash X block);
                 db6 = WriteHeadHeaderHash db5 (BlockHash X block);
                 db7 = WriteStateGcBR db6 (NumberU64 block);
                 config = (case Config g1 of None \<Rightarrow> Some (AllMinervaProtocolChanges X) | Some c \<Rightarrow> Some c)
             in Ret ((Some block, None), g1, WriteChainConfig db7 (BlockHash X block) config)))"

definition CommitSnail ::
  "'cfg extern \<Rightarrow> 'cfg Database \<Rightarrow> 'cfg Genesis
     \<Rightarrow> ((SnailBlock option \<times> error option) \<times> 'cfg Genesis \<times> 'cfg Database) result" where
  "CommitSnail X db g =
     (case ToSnailBlock X (Some db) g of
        Panic \<Rightarrow> Panic
      | Ret (block, g1, db1) \<Rightarrow>
          if sh_Number (sb_header block) \<noteq> 0 then Ret ((None, Some ErrCommitNumber), g1, db1)
          else
            (let db2 = snail_WriteTd db1 (SnailBlockHash X block) (snail_NumberU64 block) (Difficulty g1);
                 db3 = snail_WriteBlock X db2 block;
                 db4 = snail_WriteFtLookupEntries X db3 block;
                 db5 = snail_WriteCanonicalHash db4 (SnailBlockHash X block) (snail_NumberU64 block);
                 db6 = snail_WriteHeadBlockHash db5 (SnailBlockHash X block)
             in Ret ((Some block, None), g1, snail_WriteHeadHeaderHash db6 (SnailBlockHash X block))))"


subsection \<open>The main-net genesis specification\<close>

definition key1 :: bytes where
  "key1 = ''042044fd0c38906242061f6978d7a3158b55fd373d3c56fe972390002f5c46484d404c6356280f3b73c14d7ec3a3bfa06e7899972991d4312f47d7c9224ebe2e69''"

definition key2 :: bytes where
  "key2 = ''0474e42b6b7e03a3f624f367b9d4030a9fd3507916c2de018f8578d6fb3e0b283d9613a7508042d8963e71d7b4807a6cdb7dfee717d22f4498787566078374b6fc''"

definition key3 :: bytes where
  "key3 = ''04cdab5f2005e417a8fa357508b6ee1a71ddf96eb489a06194427e02f9c757fc376c2bf76b3b6afddb096284bf8d103e99316d559f4094beaceeda4752cca42b8a''"

definition key4 :: bytes where
  "key4 = ''04db067a3f83aee61df3aa8724857120b46f1e82036f18e14d6cf7358fd4138b79eb7e6961d99fb112986ef3c7b64ac8184f3eafabe559fe2358d07b7b46d94078''"

text \<open>A composite literal that only gives some fields leaves the others at zero.\<close>

definition account :: "int \<Rightarrow> GenesisAccount" where
  "account bal = \<lparr>a_Code = [], a_Storage = Map.empty, a_Balance = bal, a_Nonce = 0, a_PrivateKey = []\<rparr>"

definition member :: "address \<Rightarrow> bytes \<Rightarrow> CommitteeMember" where
  "member cb pk = \<lparr>m_Coinbase = cb, m_CommitteeBase = 0, m_Publickey = pk, m_Flag = FlagUnset,
     m_MType = TypeUnset\<rparr>"

definition DefaultGenesisBlock :: "'cfg extern \<Rightarrow> 'cfg Genesis" where
  "DefaultGenesisBlock X =
     \<lparr>Config = Some (MainnetChainConfig X),
      Nonce = 330,
      Timestamp = 0,
      ExtraData = ''54727565436861696E204D61696E4E6574'',
      GasLimit = 16777216,
      Difficulty = Some 2147483648,
      Mixhash = 0,
      Coinbase = 0,
      Alloc = [0x0172479e14f038B7C825975927d5d8CcDF1670A2 \<mapsto> account 65750000000000000000000000,
               0x58e96112Fd2727cFa4D09EC545CF6b6Bff4B4F62 \<mapsto> account 8250000000000000000000000],
      Committee =
        [member 0x0172479e14f038B7C825975927d5d8CcDF1670A2 key1,
         member 0x58e96112Fd2727cFa4D09EC545CF6b6Bff4B4F62 key2,
         member 0xe4A05d9be5671045a4D7286A58863D06961842B2 key3,
         member 0xdcB9f89f272bB397D4870f40c9E925Aaf5553b73 key4],
      Number = 0,
      GasUsed = 0,
      ParentHash = 0\<rparr>"

text \<open>
  Modelled from the spec: \<open>params.MainnetGenesisHash\<close> and
  \<open>params.MainnetSnailGenesisHash\<close> are declared in package params, which is not under
  src/. Each network has its own genesis hash; the two constants of the main network
  are the hash of the fast block and the hash of the snail block of the main-net genesis
  specification, each built with a nil database, which is what \<open>TestDefaultGenesisBlock\<close>
  and \<open>TestDefaultSnailGenesisBlock\<close> compare them with. Where the block is not built,
  the constant is the zero hash.
\<close>

definition MainnetGenesisHash :: "'cfg extern \<Rightarrow> hash" where
  "MainnetGenesisHash X =
     (case ToFastBlock X None (DefaultGenesisBlock X) of
        Panic \<Rightarrow> 0
      | Ret (block, g, db) \<Rightarrow> BlockHash X block)"

definition MainnetSnailGenesisHash :: "'cfg extern \<Rightarrow> hash" where
  "MainnetSnailGenesisHash X =
     (case ToSnailBlock X None (DefaultGenesisBlock X) of
        Panic \<Rightarrow> 0
      | Ret (block, g, db) \<Rightarrow> SnailBlockHash X block)"

subsection \<open>Setting up the genesis blocks\<close>

definition configOrDefault :: "'cfg extern \<Rightarrow> 'cfg Genesis option \<Rightarrow> hash \<Rightarrow> 'cfg option" where
  "configOrDefault X g ghash =
     (case g of
        Some g' \<Rightarrow> Config g'
      | None \<Rightarrow>
          if ghash = MainnetGenesisHash X then Some (MainnetChainConfig X)
          else if ghash = MainnetSnailGenesisHash X then Some (MainnetChainConfig X)
          else if ghash = TestnetGenesisHash X then Some (TestnetChainConfig X)
          else if ghash = TestnetSnailGenesisHash X then Some (TestnetChainConfig X)
          else Some (AllMinervaProtocolChanges X))"

text \<open>
  The functions below return the Go results, the specification behind the caller's
  pointer as the call leaves it, and the database.

  \<open>fastGenesisConfig\<close> is the second half of \<open>setupFastGenesisBlock\<close>, from the comment
  ``Get the existing chain configuration'' on: a stored genesis block is present and
  the given specification, if any, hashes to it.
\<close>

definition fastGenesisConfig ::
  "'cfg extern \<Rightarrow> 'cfg Database \<Rightarrow> 'cfg Genesis option \<Rightarrow> hash
     \<Rightarrow> (('cfg option \<times> hash \<times> error option) \<times> 'cfg Genesis option \<times> 'cfg Database) result" where
  "fastGenesisConfig X db genesis stored =
     (let newcfg = configOrDefault X genesis stored in
      case ReadChainConfig db stored of
        None \<Rightarrow> Ret ((newcfg, stored, None), genesis, WriteChainConfig db stored newcfg)
      | Some storedcfg \<Rightarrow>
          if (case genesis of None \<Rightarrow> True | Some g \<Rightarrow> False) \<and> stored \<noteq> MainnetGenesisHash X
          then Ret ((Some storedcfg, stored, None), genesis, db)
          else
            (case ReadHeaderNumber db (ReadHeadHeaderHash db) of
               None \<Rightarrow> Ret ((newcfg, stored, Some ErrMissingBlockNumber), genesis, db)
             | Some height \<Rightarrow>
                 (case newcfg of
                    None \<Rightarrow> Panic
                  | Some nc \<Rightarrow>
                      (case CheckCompatible X storedcfg nc height of
                         None \<Rightarrow> Ret ((newcfg, stored, None), genesis, WriteChainConfig db stored newcfg)
                       | Some compatErr \<Rightarrow>
                           if height \<noteq> 0 \<and> RewindTo compatErr \<noteq> 0
                           then Ret ((newcfg, stored, Some (CompatError compatErr)), genesis, db)
                           else Ret ((newcfg, stored, None), genesis, WriteChainConfig db stored newcfg)))))"

definition setupFastGenesisBlock ::
  "'cfg extern \<Rightarrow> 'cfg Database \<Rightarrow> 'cfg Genesis option
     \<Rightarrow> (('cfg option \<times> hash \<times> error option) \<times> 'cfg Genesis option \<times> 'cfg Database) result" where
  "setupFastGenesisBlock X db genesis =
     (if (case genesis of None \<Rightarrow> False | Some g \<Rightarrow> Config g = None)
      then Ret ((Some (AllMinervaProtocolChanges X), 0, Some errGenesisNoConfig), genesis, db)
      else
        (let stored = ReadCanonicalHash db 0 in
         if stored = 0 then
           (case CommitFast X db (case genesis of None \<Rightarrow> DefaultGenesisBlock X | Some g \<Rightarrow> g) of
              Panic \<Rightarrow> Panic
            | Ret ((block, err), g1, db1) \<Rightarrow>
                (case block of
                   None \<Rightarrow> Panic
                 | Some b \<Rightarrow> Ret ((Config g1, BlockHash X b, err), map_option (\<lambda>g. g1) genesis, db1)))
         else
           (case genesis of
              None \<Rightarrow> fastGenesisConfig X db None stored
            | Some g \<Rightarrow>
                (case ToFastBlock X None g of
                   Panic \<Rightarrow> Panic
                 | Ret (block, g1, mem) \<Rightarrow>
                     if BlockHash X block \<noteq> stored
                     then Ret ((Config g1, BlockHash X block,
                                Some (GenesisMismatchError stored (BlockHash X block))), Some g1, db)
                     else fastGenesisConfig X db (Some g1) stored))))"

definition setupSnailGenesisBlock ::
  "'cfg extern \<Rightarrow> 'cfg Database \<Rightarrow> 'cfg Genesis option
     \<Rightarrow> (('cfg option \<times> hash \<times> error option) \<times> 'cfg Genesis option \<times> 'cfg Database) result" where
  "setupSnailGenesisBlock X db genesis =
     (if (case genesis of None \<Rightarrow> False | Some g \<Rightarrow> Config g = None)
      then Ret ((Some (AllMinervaProtocolChanges X), 0, Some errGenesisNoConfig), genesis, db)
      else
        (let stored = snail_ReadCanonicalHash db 0 in
         if stored = 0 then
           (case CommitSnail X db (case genesis of None \<Rightarrow> DefaultGenesisBlock X | Some g \<Rightarrow> g) of
              Panic \<Rightarrow> Panic
            | Ret ((block, err), g1, db1) \<Rightarrow>
                (case block of
                   None \<Rightarrow> Panic
                 | Some b \<Rightarrow> Ret ((Config g1, SnailBlockHash X b, err), map_option (\<lambda>g. g1) genesis, db1)))
         else
           (case genesis of
              None \<Rightarrow> Ret ((configOrDefault X None stored, stored, None), None, db)
            | Some g \<Rightarrow>
                (case ToSnailBlock X None g of
                   Panic \<Rightarrow> Panic
                 | Ret (block, g1, mem) \<Rightarrow>
                     if SnailBlockHash X block \<noteq> stored
                     then Ret ((Config g1, SnailBlockHash X block,
                                Some (GenesisMismatchError stored (SnailBlockHash X block))), Some g1, db)
                     else Ret ((configOrDefault X (Some g1) stored, stored, None), Some g1, db)))))"

definition SetupGenesisBlock ::
  "'cfg extern \<Rightarrow> 'cfg Database \<Rightarrow> 'cfg Genesis option
     \<Rightarrow> (('cfg option \<times> hash \<times> hash \<times> error option) \<times> 'cfg Genesis option \<times> 'cfg Database) result" where
  "SetupGenesisBlock X db genesis =
     (if (case genesis of None \<Rightarrow> False | Some g \<Rightarrow> Config g = None)
      then Ret ((Some (AllMinervaProtocolChanges X), 0, 0, Some errGenesisNoConfig), genesis, db)
      else
        (case setupFastGenesisBlock X db genesis of
           Panic \<Rightarrow> Panic
         | Ret ((fastConfig, fastHash, fastErr), genesis1, db1) \<Rightarrow>
             (case setupSnailGenesisBlock X db1 genesis1 of
                Panic \<Rightarrow> Panic
              | Ret ((snailConfig, snailHash, snailErr), genesis2, db2) \<Rightarrow>
                  Ret ((fastConfig, fastHash, snailHash, fastErr), genesis2, db2))))"

section \<open>Package tai: metered message streams\<close>

text \<open>
  Modelled from the spec: package metrics is not under src/. A meter is identified by
  the name it is registered under, the registry holds one count per meter, and
  \<open>Mark(n)\<close> adds n to the count of its meter.
\<close>

type_synonym meter = string
type_synonym registry = "meter \<Rightarrow> int"

definition Mark :: "meter \<Rightarrow> int \<Rightarrow> registry \<Rightarrow> registry" where
  "Mark m n reg = reg(m := reg m + n)"

definition propTxnInPacketsMeter :: meter where
  "propTxnInPacketsMeter = ''etai/prop/txns/in/packets''"

definition propTxnInTxsMeter :: meter where
  "propTxnInTxsMeter = ''etai/prop/txns/in/txs''"

definition propTxnInTrafficMeter :: meter where
  "propTxnInTrafficMeter = ''etai/prop/txns/in/traffic''"

definition propTxnOutPacketsMeter :: meter where
  "propTxnOutPacketsMeter = ''etai/prop/txns/out/packets''"

definition propTxnOutTrafficMeter :: meter where
  "propTxnOutTrafficMeter = ''etai/prop/txns/out/traffic''"

definition propFtnInPacketsMeter :: meter where
  "propFtnInPacketsMeter = ''etai/prop/ftns/in/packets''"

definition propFtnInTrafficMeter :: meter where
  "propFtnInTrafficMeter = ''etai/prop/ftns/in/traffic''"

definition propFtnOutPacketsMeter :: meter where
  "propFtnOutPacketsMeter = ''etai/prop/ftns/out/packets''"

definition propFtnOutTrafficMeter :: meter where
  "propFtnOutTrafficMeter = ''etai/prop/ftns/out/traffic''"

definition propFHashInPacketsMeter :: meter where
  "propFHashInPacketsMeter = ''etai/prop/fhashes/in/packets''"

definition propFHashInTrafficMeter :: meter where
  "propFHashInTrafficMeter = ''etai/prop/fhashes/in/traffic''"

definition propFHashOutPacketsMeter :: meter where
  "propFHashOutPacketsMeter = ''etai/prop/fhashes/out/packets''"

definition propFHashOutTrafficMeter :: meter where
  "propFHashOutTrafficMeter = ''etai/prop/fhashes/out/traffic''"

definition propSHashInPacketsMeter :: meter where
  "propSHashInPacketsMeter = ''etai/prop/shashes/in/packets''"

definition propSHashInTrafficMeter :: meter where
  "propSHashInTrafficMeter = ''etai/prop/shashes/in/traffic''"

definition propSHashOutPacketsMeter :: meter where
  "propSHashOutPacketsMeter = ''etai/prop/shashes/out/packets''"

definition propSHashOutTrafficMeter :: meter where
  "propSHashOutTrafficMeter = ''etai/prop/shashes/out/traffic''"

definition propFBlockInPacketsMeter :: meter where
  "propFBlockInPacketsMeter = ''etai/prop/fblocks/in/packets''"

definition propFBlockInTrafficMeter :: meter where
  "propFBlockInTrafficMeter = ''etai/prop/fblocks/in/traffic''"

definition propFBlockOutPacketsMeter :: meter where
  "propFBlockOutPacketsMeter = ''etai/prop/fblocks/out/packets''"

definition propFBlockOutTrafficMeter :: meter where
  "propFBlockOutTrafficMeter = ''etai/prop/fblocks/out/traffic''"

definition propSBlockInPacketsMeter :: meter where
  "propSBlockInPacketsMeter = ''etai/prop/sblocks/in/packets''"

definition propSBlockInTrafficMeter :: meter where
  "propSBlockInTrafficMeter = ''etai/prop/sblocks/in/traffic''"

definition propSBlockOutPacketsMeter :: meter where
  "propSBlockOutPacketsMeter = ''etai/prop/sblocks/out/packets''"

definition propSBlockOutTrafficMeter :: meter where
  "propSBlockOutTrafficMeter = ''etai/prop/sblocks/out/traffic''"

definition propNodeInfoInPacketsMeter :: meter where
  "propNodeInfoInPacketsMeter = ''etai/prop/nodeinfo/in/packets''"

definition propNodeInfoInTrafficMeter :: meter where
  "propNodeInfoInTrafficMeter = ''etai/prop/nodeinfo/in/traffic''"

definition propNodeInfoOutPacketsMeter :: meter where
  "propNodeInfoOutPacketsMeter = ''etai/prop/nodeinfo/out/packets''"

definition propNodeInfoOutTrafficMeter :: meter where
  "propNodeInfoOutTrafficMeter = ''etai/prop/nodeinfo/out/traffic''"

definition propNodeInfoHashInPacketsMeter :: meter where
  "propNodeInfoHashInPacketsMeter = ''etai/prop/nodeinfohash/in/packets''"

definition propNodeInfoHashInTrafficMeter :: meter where
  "propNodeInfoHashInTrafficMeter = ''etai/prop/nodeinfohash/in/traffic''"

definition propNodeInfoHashOutPacketsMeter :: meter where
  "propNodeInfoHashOutPacketsMeter = ''etai/prop/nodeinfohash/out/packets''"

definition propNodeInfoHashOutTrafficMeter :: meter where
  "propNodeInfoHashOutTrafficMeter = ''etai/prop/nodeinfohash/out/traffic''"

definition reqFHeaderInPacketsMeter :: meter where
  "reqFHeaderInPacketsMeter = ''etai/req/headers/in/packets''"

definition reqFHeaderInTrafficMeter :: meter where
  "reqFHeaderInTrafficMeter = ''etai/req/headers/in/traffic''"

definition reqFHeaderOutPacketsMeter :: meter where
  "reqFHeaderOutPacketsMeter = ''etai/req/headers/out/packets''"

definition reqFHeaderOutTrafficMeter :: meter where
  "reqFHeaderOutTrafficMeter = ''etai/req/headers/out/traffic''"

definition reqSHeaderInPacketsMeter :: meter where
  "reqSHeaderInPacketsMeter = ''etai/req/sheaders/in/packets''"

definition reqSHeaderInTrafficMeter :: meter where
  "reqSHeaderInTrafficMeter = ''etai/req/sheaders/in/traffic''"

definition reqSHeaderOutPacketsMeter :: meter where
  "reqSHeaderOutPacketsMeter = ''etai/req/sheaders/out/packets''"

definition reqSHeaderOutTrafficMeter :: meter where
  "reqSHeaderOutTrafficMeter = ''etai/req/sheaders/out/traffic''"

definition reqFBodyInPacketsMeter :: meter where
  "reqFBodyInPacketsMeter = ''etai/req/fbodies/in/packets''"

definition reqFBodyInTrafficMeter :: meter where
  "reqFBodyInTrafficMeter = ''etai/req/fbodies/in/traffic''"

definition reqFBodyOutPacketsMeter :: meter where
  "reqFBodyOutPacketsMeter = ''etai/req/fbodies/out/packets''"

definition reqFBodyOutTrafficMeter :: meter where
  "reqFBodyOutTrafficMeter = ''etai/req/fbodies/out/traffic''"

definition reqSBodyInPacketsMeter :: meter where
  "reqSBodyInPacketsMeter = ''etai/req/sbodies/in/packets''"

definition reqSBodyInTrafficMeter :: meter where
  "reqSBodyInTrafficMeter = ''etai/req/sbodies/in/traffic''"

definition reqSBodyOutPacketsMeter :: meter where
  "reqSBodyOutPacketsMeter = ''etai/req/sbodies/out/packets''"

definition reqSBodyOutTrafficMeter :: meter where
  "reqSBodyOutTrafficMeter = ''etai/req/sbodies/out/traffic''"

definition reqStateInPacketsMeter :: meter where
  "reqStateInPacketsMeter = ''etai/req/states/in/packets''"

definition reqStateInTrafficMeter :: meter where
  "reqStateInTrafficMeter = ''etai/req/states/in/traffic''"

definition reqStateOutPacketsMeter :: meter where
  "reqStateOutPacketsMeter = ''etai/req/states/out/packets''"

definition reqStateOutTrafficMeter :: meter where
  "reqStateOutTrafficMeter = ''etai/req/states/out/traffic''"

definition reqReceiptInPacketsMeter :: meter where
  "reqReceiptInPacketsMeter = ''etai/req/receipts/in/packets''"

definition reqReceiptInTrafficMeter :: meter where
  "reqReceiptInTrafficMeter = ''etai/req/receipts/in/traffic''"

definition reqReceiptOutPacketsMeter :: meter where
  "reqReceiptOutPacketsMeter = ''etai/req/receipts/out/packets''"

definition reqReceiptOutTrafficMeter :: meter where
  "reqReceiptOutTrafficMeter = ''etai/req/receipts/out/traffic''"

definition getHeadInPacketsMeter :: meter where
  "getHeadInPacketsMeter = ''etai/get/head/in/packets''"

definition getHeadInTrafficMeter :: meter where
  "getHeadInTrafficMeter = ''etai/get/head/in/traffic''"

definition getHeadOutPacketsMeter :: meter where
  "getHeadOutPacketsMeter = ''etai/get/head/out/packets''"

definition getHeadOutTrafficMeter :: meter where
  "getHeadOutTrafficMeter = ''etai/get/head/out/traffic''"

definition getBodyInPacketsMeter :: meter where
  "getBodyInPacketsMeter = ''etai/get/bodies/in/packets''"

definition getBodyInTrafficMeter :: meter where
  "getBodyInTrafficMeter = ''etai/get/bodies/in/traffic''"

definition getBodyOutPacketsMeter :: meter where
  "getBodyOutPacketsMeter = ''etai/get/bodies/out/packets''"

definition getBodyOutTrafficMeter :: meter where
  "getBodyOutTrafficMeter = ''etai/get/bodies/out/traffic''"

definition getNodeInfoInPacketsMeter :: meter where
  "getNodeInfoInPacketsMeter = ''etai/get/nodeinfo/in/packets''"

definition getNodeInfoInTrafficMeter :: meter where
  "getNodeInfoInTrafficMeter = ''etai/get/nodeinfo/in/traffic''"

definition getNodeInfoOutPacketsMeter :: meter where
  "getNodeInfoOutPacketsMeter = ''etai/get/nodeinfo/out/packets''"

definition getNodeInfoOutTrafficMeter :: meter where
  "getNodeInfoOutTrafficMeter = ''etai/get/nodeinfo/out/traffic''"

definition miscInPacketsMeter :: meter where
  "miscInPacketsMeter = ''etai/misc/in/packets''"

definition miscInTrafficMeter :: meter where
  "miscInTrafficMeter = ''etai/misc/in/traffic''"

definition miscOutPacketsMeter :: meter where
  "miscOutPacketsMeter = ''etai/misc/out/packets''"

definition miscOutTrafficMeter :: meter where
  "miscOutTrafficMeter = ''etai/misc/out/traffic''"

text \<open>
  Modelled from the spec: the message codes are declared in protocol.go, which is not
  under src/; they are the codes of section 6 of the specification.
\<close>

definition StatusMsg :: uint64 where
  "StatusMsg = 0x01"

definition NewFastBlockHashesMsg :: uint64 where
  "NewFastBlockHashesMsg = 0x02"

definition NewFastBlockMsg :: uint64 where
  "NewFastBlockMsg = 0x03"

definition TxMsg :: uint64 where
  "TxMsg = 0x04"

definition GetFastBlockHeadersMsg :: uint64 where
  "GetFastBlockHeadersMsg = 0x05"

definition FastBlockHeadersMsg :: uint64 where
  "FastBlockHeadersMsg = 0x06"

definition GetFastBlockBodiesMsg :: uint64 where
  "GetFastBlockBodiesMsg = 0x07"

definition FastBlockBodiesMsg :: uint64 where
  "FastBlockBodiesMsg = 0x08"

definition NewSnailBlockHashesMsg :: uint64 where
  "NewSnailBlockHashesMsg = 0x09"

definition NewSnailBlockMsg :: uint64 where
  "NewSnailBlockMsg = 0x0A"

definition GetSnailBlockHeadersMsg :: uint64 where
  "GetSnailBlockHeadersMsg = 0x0B"

definition SnailBlockHeadersMsg :: uint64 where
  "SnailBlockHeadersMsg = 0x0C"

definition GetSnailBlockBodiesMsg :: uint64 where
  "GetSnailBlockBodiesMsg = 0x0D"

definition SnailBlockBodiesMsg :: uint64 where
  "SnailBlockBodiesMsg = 0x0E"

definition NewFruitMsg :: uint64 where
  "NewFruitMsg = 0x0F"

definition NodeDataMsg :: uint64 where
  "NodeDataMsg = 0x10"

definition ReceiptsMsg :: uint64 where
  "ReceiptsMsg = 0x11"

definition TbftNodeInfoMsg :: uint64 where
  "TbftNodeInfoMsg = 0x12"

definition TbftNodeInfoHashMsg :: uint64 where
  "TbftNodeInfoHashMsg = 0x13"

definition GetTbftNodeInfoMsg :: uint64 where
  "GetTbftNodeInfoMsg = 0x14"

record Msg =
  Code :: uint64
  Size :: "32 word"

text \<open>
  The \<open>switch\<close> of \<open>ReadMsg\<close> and of \<open>WriteMsg\<close>: the packet meter and the traffic
  meter chosen for a message code, the first matching case winning, the misc meters
  when none matches.
\<close>

definition ReadMsg_meters :: "uint64 \<Rightarrow> meter \<times> meter" where
  "ReadMsg_meters code =
     (if code = FastBlockHeadersMsg then (reqFHeaderInPacketsMeter, reqFHeaderInTrafficMeter)
      else if code = SnailBlockHeadersMsg then (reqSHeaderInPacketsMeter, reqSHeaderInTrafficMeter)
      else if code = FastBlockBodiesMsg then (reqFBodyInPacketsMeter, reqFBodyInTrafficMeter)
      else if code = SnailBlockBodiesMsg then (reqSBodyInPacketsMeter, reqSBodyInTrafficMeter)
      else if code = NodeDataMsg then (reqStateInPacketsMeter, reqStateInTrafficMeter)
      else if code = ReceiptsMsg then (reqReceiptInPacketsMeter, reqReceiptInTrafficMeter)
      else if code = NewFastBlockHashesMsg then (propFHashInPacketsMeter, propFHashInTrafficMeter)
      else if code = NewSnailBlockHashesMsg then (propSHashInPacketsMeter, propSHashInTrafficMeter)
      else if code = NewFastBlockMsg then (propFBlockInPacketsMeter, propFBlockInTrafficMeter)
      else if code = NewSnailBlockMsg then (propSBlockInPacketsMeter, propSBlockInTrafficMeter)
      else if code = TxMsg then (propTxnInPacketsMeter, propTxnInTrafficMeter)
      else if code = NewFruitMsg then (propFtnInPacketsMeter, propFtnInTrafficMeter)
      else if code = TbftNodeInfoMsg then (propNodeInfoInPacketsMeter, propNodeInfoInTrafficMeter)
      else if code = TbftNodeInfoHashMsg then (propNodeInfoHashInPacketsMeter, propNodeInfoHashInTrafficMeter)
      else if code = GetTbftNodeInfoMsg then (getNodeInfoInPacketsMeter, getNodeInfoInTrafficMeter)
      else if code = GetFastBlockHeadersMsg then (getHeadInPacketsMeter, getHeadInTrafficMeter)
      else if code = GetFastBlockBodiesMsg then (getHeadInPacketsMeter, getHeadInTrafficMeter)
      else if code = GetSnailBlockHeadersMsg then (getBodyInPacketsMeter, getBodyInTrafficMeter)
      else if code = GetSnailBlockBodiesMsg then (getBodyInPacketsMeter, getBodyInTrafficMeter)
      else (miscInPacketsMeter, miscInTrafficMeter))"

definition WriteMsg_meters :: "uint64 \<Rightarrow> meter \<times> meter" where
  "WriteMsg_meters code =
     (if code = FastBlockHeadersMsg then (reqFHeaderOutPacketsMeter, reqFHeaderOutTrafficMeter)
      else if code = SnailBlockHeadersMsg then (reqSHeaderOutPacketsMeter, reqSHeaderOutTrafficMeter)
      else if code = FastBlockBodiesMsg then (reqFBodyOutPacketsMeter, reqFBodyOutTrafficMeter)
      else if code = SnailBlockBodiesMsg then (reqSBodyOutPacketsMeter, reqSBodyOutTrafficMeter)
      else if code = NodeDataMsg then (reqStateOutPacketsMeter, reqStateOutTrafficMeter)
      else if code = ReceiptsMsg then (reqReceiptOutPacketsMeter, reqReceiptOutTrafficMeter)
      else if code = NewFastBlockHashesMsg then (propFHashOutPacketsMeter, propFHashOutTrafficMeter)
      else if code = NewSnailBlockHashesMsg then (propSHashOutPacketsMeter, propSHashOutTrafficMeter)
      else if code = NewFastBlockMsg then (propFBlockOutPacketsMeter, propFBlockOutTrafficMeter)
      else if code = NewSnailBlockMsg then (propSBlockOutPacketsMeter, propSBlockOutTrafficMeter)
      else if code = TxMsg then (propTxnOutPacketsMeter, propTxnOutTrafficMeter)
      else if code = NewFruitMsg then (propFtnOutPacketsMeter, propFtnOutTrafficMeter)
      else if code = TbftNodeInfoMsg then (propNodeInfoOutPacketsMeter, propNodeInfoOutTrafficMeter)
      else if code = TbftNodeInfoHashMsg then (propNodeInfoHashOutPacketsMeter, propNodeInfoHashOutTrafficMeter)
      else if code = GetTbftNodeInfoMsg then (getNodeInfoOutPacketsMeter, getNodeInfoOutTrafficMeter)
      else if code = GetFastBlockHeadersMsg then (getHeadOutPacketsMeter, getHeadOutTrafficMeter)
      else if code = GetFastBlockBodiesMsg then (getHeadInPacketsMeter, getHeadOutTrafficMeter)
      else if code = GetSnailBlockHeadersMsg then (getBodyOutPacketsMeter, getBodyOutTrafficMeter)
      else if code = GetSnailBlockBodiesMsg then (getBodyOutPacketsMeter, getBodyOutTrafficMeter)
      else (miscOutPacketsMeter, miscOutTrafficMeter))"

text \<open>
  \<open>ReadMsg\<close> gets what the wrapped stream read (a message, or an error, which short
  circuits the accounting); \<open>WriteMsg\<close> accounts first and then returns what the wrapped
  stream's write returns.
\<close>

definition ReadMsg :: "Msg \<times> error option \<Rightarrow> registry \<Rightarrow> (Msg \<times> error option) \<times> registry" where
  "ReadMsg inner reg =
     (case inner of
        (msg, Some err) \<Rightarrow> ((msg, Some err), reg)
      | (msg, None) \<Rightarrow>
          (case ReadMsg_meters (Code msg) of
             (packets, traffic) \<Rightarrow> ((msg, None), Mark traffic (uint (Size msg)) (Mark packets 1 reg))))"

definition WriteMsg :: "Msg \<Rightarrow> error option \<Rightarrow> registry \<Rightarrow> error option \<times> registry" where
  "WriteMsg msg inner reg =
     (case WriteMsg_meters (Code msg) of
        (packets, traffic) \<Rightarrow> (inner, Mark traffic (uint (Size msg)) (Mark packets 1 reg)))"

section \<open>The node services\<close>

text \<open>
  Modelled from the spec: core.BlockChain, snailchain.SnailBlockChain, light.LightChain
  and the downloader are not under src/. A chain is represented by its canonical head
  pointer, and \<open>setHead(n)\<close> rewinds that pointer to n when it is above n. The downloader
  is represented by its sync session: whether one is in flight and its outstanding
  requests; on cancel the outstanding requests are abandoned.
\<close>

record chain =
  currentNumber :: uint64

definition chain_SetHead :: "uint64 \<Rightarrow> chain \<Rightarrow> chain" where
  "chain_SetHead n c = (if n < currentNumber c then c\<lparr>currentNumber := n\<rparr> else c)"

record Downloader =
  synchronising :: bool
  outstanding :: "nat list"

definition Downloader_Cancel :: "Downloader \<Rightarrow> Downloader" where
  "Downloader_Cancel d = d\<lparr>synchronising := False, outstanding := []\<rparr>"

text \<open>
  Every call a service makes on a collaborator is recorded, in order, as the method
  called (qualified by its type or package) and the arguments that matter.
\<close>

datatype arg = ANum int | AAddr address | ABytes bytes | AStr string | ABool bool

type_synonym call = "string \<times> arg list"

text \<open>The proof-of-work modes and the engines \<open>CreateConsensusEngine\<close> chooses between.\<close>

datatype Mode = ModeNormal | ModeShared | ModeTest | ModeFake | ModeFullFake

datatype Engine = Faker | Tester | Shared | Minerva uint64

text \<open>
  The fields of \<open>Config\<close> and of \<open>node.ServiceContext\<close> that the modelled functions read;
  the others are handed to collaborators unchanged. \<open>OpenDatabase\<close> gives the stored
  database and whether it is an \<open>LDBDatabase\<close>.
\<close>

record 'cfg Config =
  SyncMode :: "64 word"
  c_Genesis :: "'cfg Genesis option"
  SkipBcVersionCheck :: bool
  NetworkId :: uint64
  c_GasPrice :: "int option"
  c_Etherbase :: address
  PowMode :: Mode
  LightServ :: "64 word"
  LightPeers :: "64 word"
  CommitteeKey :: bytes
  c_ExtraData :: bytes
  EnableElection :: bool
  TxPoolJournal :: string
  SnailPoolJournal :: string
  Port :: "64 word"
  StandbyPort :: "64 word"

record 'cfg ServiceContext =
  OpenDatabase :: "string \<Rightarrow> error + 'cfg Database \<times> bool"
  ResolvePath :: "string \<Rightarrow> string"
  AccountWallets :: "address list list"

record Server =
  MaxPeers :: "64 word"

type_synonym PrivateKey = int
type_synonym PbftNode = nat

text \<open>
  What the node services take from packages that are not under src/: the sync modes of
  the downloader, \<open>core.BlockChainVersion\<close>, the TIP9 snail number of a chain
  configuration (\<open>None\<close> when a pointer on the way is nil), the constructors that can
  fail, key decoding, the tbft node, and the default extra data with its size limit.
\<close>

record 'cfg services =
  LightSync :: "64 word"
  IsValid :: "64 word \<Rightarrow> bool"
  BlockChainVersion :: int
  TIP9_SnailNumber :: "'cfg \<Rightarrow> uint64 option"
  NewBlockChain :: "'cfg Database \<Rightarrow> 'cfg option \<Rightarrow> error + chain"
  NewSnailBlockChain :: "'cfg Database \<Rightarrow> 'cfg option \<Rightarrow> chain \<Rightarrow> error + chain"
  NewProtocolManager :: "'cfg option \<Rightarrow> 64 word \<Rightarrow> uint64 \<Rightarrow> error + Downloader"
  ToECDSA :: "bytes \<Rightarrow> error + PrivateKey"
  FromECDSAPub :: "PrivateKey \<Rightarrow> bytes"
  tbft_NewNode :: "PrivateKey \<Rightarrow> 64 word \<Rightarrow> 64 word \<Rightarrow> error + PbftNode"
  tbft_Node_Start :: "PbftNode \<Rightarrow> error option"
  defaultExtraData :: bytes
  MaximumExtraDataSize :: uint64

text \<open>
  The \<open>Taichain\<close> struct, which both packages declare with the same fields. Of the
  protocol manager the downloader and the \<open>acceptFruits\<close> flag are kept; \<open>lesServer\<close>
  and \<open>pbftServer\<close> are pointers that may be nil; \<open>wallets\<close> are the accounts of the
  account manager's wallets; \<open>shutdownClosed\<close> tells whether the shutdown channel was
  closed.
\<close>

record 'cfg Taichain =
  config :: "'cfg Config"
  chainConfig :: "'cfg option"
  chainDb :: "'cfg Database"
  engine :: Engine
  blockchain :: chain
  snailblockchain :: chain
  downloader :: Downloader
  acceptFruits :: "32 word"
  lesServer :: bool
  pbftServer :: "PbftNode option"
  netRPCService :: "uint64 option"
  etherbase :: address
  networkID :: uint64
  gasPrice :: "int option"
  wallets :: "address list list"
  shutdownClosed :: bool

text \<open>\<open>len\<close> of a byte string written in hex.\<close>

definition len :: "bytes \<Rightarrow> nat" where
  "len b = length b div 2"

definition makeExtraData :: "'cfg services \<Rightarrow> bytes \<Rightarrow> bytes" where
  "makeExtraData S extra =
     (let extra1 = (if len extra = 0 then defaultExtraData S else extra)
      in if MaximumExtraDataSize S < of_nat (len extra1) then [] else extra1)"

definition CreateConsensusEngine :: "'cfg services \<Rightarrow> Mode \<Rightarrow> 'cfg option \<Rightarrow> Engine result" where
  "CreateConsensusEngine S mode chainCfg =
     (case mode of
        ModeFake \<Rightarrow> Ret Faker
      | ModeTest \<Rightarrow> Ret Tester
      | ModeShared \<Rightarrow> Ret Shared
      | _ \<Rightarrow>
          (case chainCfg of
             None \<Rightarrow> Panic
           | Some c \<Rightarrow> (case TIP9_SnailNumber S c of None \<Rightarrow> Panic | Some n \<Rightarrow> Ret (Minerva n))))"

subsection \<open>Package tai\<close>

definition tai_CreateDB ::
  "'cfg ServiceContext \<Rightarrow> 'cfg Config \<Rightarrow> string \<Rightarrow> (error + 'cfg Database) \<times> call list" where
  "tai_CreateDB ctx cfg name =
     (case OpenDatabase ctx name of
        Inl err \<Rightarrow> (Inl err, [])
      | Inr (db, isLDB) \<Rightarrow>
          (Inr db, if isLDB then [(''db.Meter'', [AStr ''tai/db/chaindata/''])] else []))"

text \<open>
  \<open>New\<close> returns the Go result, the chain database as the call leaves it (\<open>None\<close> when
  it was not opened) and the calls made on collaborators. In this file \<open>rawdb\<close> is the
  package core/snailchain/rawdb, so the database version and the chain configuration
  go through the snail accessors.
\<close>

definition tai_New ::
  "'cfg extern \<Rightarrow> 'cfg services \<Rightarrow> 'cfg ServiceContext \<Rightarrow> 'cfg Config
     \<Rightarrow> ((error + 'cfg Taichain) \<times> 'cfg Database option \<times> call list) result" where
  "tai_New X S ctx cfg =
     (if SyncMode cfg = LightSync S
      then Ret (Inl (ErrLightSync ''can't run tai.Taichain in light sync mode, use les.LightTruechain''), None, [])
      else if \<not> IsValid S (SyncMode cfg) then Ret (Inl (ErrInvalidSyncMode (SyncMode cfg)), None, [])
      else
        (case tai_CreateDB ctx cfg ''chaindata'' of
           (Inl err, cs) \<Rightarrow> Ret (Inl err, None, cs)
         | (Inr db, cs) \<Rightarrow>
             (case SetupGenesisBlock X db (c_Genesis cfg) of
                Panic \<Rightarrow> Panic
              | Ret ((chainCfg, genesisHash, snailHash, genesisErr), genesis1, db1) \<Rightarrow>
                  (case (case genesisErr of None \<Rightarrow> None | Some (CompatError c) \<Rightarrow> None | Some e \<Rightarrow> Some e) of
                     Some e \<Rightarrow> Ret (Inl e, Some db1, cs)
                   | None \<Rightarrow>
                       (case CreateConsensusEngine S (PowMode cfg) chainCfg of
                          Panic \<Rightarrow> Panic
                        | Ret eng \<Rightarrow>
                            (let cs1 = cs @ [(''NewBloomIndexer'', [])];
                                 bcVersion = ReadDatabaseVersion db1
                             in if \<not> SkipBcVersionCheck cfg \<and> bcVersion \<noteq> BlockChainVersion S \<and> bcVersion \<noteq> 0
                                then Ret (Inl (ErrVersionMismatch bcVersion (BlockChainVersion S)), Some db1, cs1)
                                else
                                  (let db2 = (if SkipBcVersionCheck cfg then db1
                                              else WriteDatabaseVersion db1 (BlockChainVersion S))
                                   in case NewBlockChain S db2 chainCfg of
                                        Inl err \<Rightarrow> Ret (Inl err, Some db2, cs1)
                                      | Inr bc \<Rightarrow>
                                          (case NewSnailBlockChain S db2 chainCfg bc of
                                             Inl err \<Rightarrow> Ret (Inl err, Some db2, cs1)
                                           | Inr sbc \<Rightarrow>
                                               (let compat = (case genesisErr of Some (CompatError c) \<Rightarrow> Some c | _ \<Rightarrow> None);
                                                    bc1 = (case compat of None \<Rightarrow> bc | Some c \<Rightarrow> chain_SetHead (RewindTo c) bc);
                                                    sbc1 = (case compat of None \<Rightarrow> sbc | Some c \<Rightarrow> chain_SetHead (RewindTo c) sbc);
                                                    db3 = (case compat of None \<Rightarrow> db2
                                                           | Some c \<Rightarrow> snail_WriteChainConfig
                                                               (snail_WriteChainConfig db2 genesisHash chainCfg) genesisHash chainCfg);
                                                    cs2 = cs1 @ (case compat of None \<Rightarrow> []
                                                           | Some c \<Rightarrow> [(''BlockChain.SetHead'', [ANum (uint (RewindTo c))]),
                                                                        (''rawdb.WriteChainConfig'', []),
                                                                        (''SnailBlockChain.SetHead'', [ANum (uint (RewindTo c))]),
                                                                        (''rawdb.WriteChainConfig'', [])]);
                                                    cfg1 = cfg\<lparr>c_Genesis := genesis1,
                                                             TxPoolJournal := (if TxPoolJournal cfg \<noteq> [] then ResolvePath ctx (TxPoolJournal cfg)
                                                                               else TxPoolJournal cfg),
                                                             SnailPoolJournal := (if SnailPoolJournal cfg \<noteq> [] then ResolvePath ctx (SnailPoolJournal cfg)
                                                                                  else SnailPoolJournal cfg)\<rparr>;
                                                    cs3 = cs2 @ [(''ChainIndexer.Start'', []), (''core.NewTxPool'', []),
                                                                 (''chain.NewSnailPool'', []), (''elect.NewElection'', []),
                                                                 (''Engine.SetElection'', []), (''Engine.SetSnailChainReader'', []),
                                                                 (''Election.SetEngine'', []), (''NewPbftAgent'', [])]
                                                in case NewProtocolManager S chainCfg (SyncMode cfg1) (NetworkId cfg1) of
                                                     Inl err \<Rightarrow> Ret (Inl err, Some db3, cs3)
                                                   | Inr dl \<Rightarrow>
                                                       Ret (Inr \<lparr>config = cfg1, chainConfig = chainCfg, chainDb = db3, engine = eng,
                                                                 blockchain = bc1, snailblockchain = sbc1, downloader = dl,
                                                                 acceptFruits = 0, lesServer = False, pbftServer = None,
                                                                 netRPCService = None, etherbase = c_Etherbase cfg1,
                                                                 networkID = NetworkId cfg1, gasPrice = c_GasPrice cfg1,
                                                                 wallets = AccountWallets ctx, shutdownClosed = False\<rparr>,
                                                            Some db3,
                                                            cs3 @ [(''miner.New'', []),
                                                                   (''Miner.SetExtra'', [ABytes (makeExtraData S (c_ExtraData cfg1))])]
                                                              @ (case ToECDSA S (CommitteeKey cfg1) of
                                                                   Inl err \<Rightarrow> []
                                                                 | Inr committeeKey \<Rightarrow>
                                                                     [(''Miner.SetElection'',
                                                                       [ABool (EnableElection cfg1), ABytes (FromECDSAPub S committeeKey)])])
                                                              @ [(''gasprice.NewOracle'', [])]))))))))))"


definition tai_AddLesServer :: "'cfg Taichain \<Rightarrow> 'cfg Taichain \<times> call list" where
  "tai_AddLesServer s = (s\<lparr>lesServer := True\<rparr>, [(''LesServer.SetBloomBitsIndexer'', [])])"

text \<open>
  \<open>Etherbase\<close> returns the configured address, or else the first account of the first
  wallet, which it then stores.
\<close>

definition tai_Etherbase :: "'cfg Taichain \<Rightarrow> (address \<times> error option) \<times> 'cfg Taichain" where
  "tai_Etherbase s =
     (if etherbase s \<noteq> 0 then ((etherbase s, None), s)
      else
        (case wallets s of
           (acct # accts) # ws \<Rightarrow> ((acct, None), s\<lparr>etherbase := acct\<rparr>)
         | _ \<Rightarrow> ((0, Some ErrCoinbaseUnspecified), s)))"

definition tai_StartMining :: "bool \<Rightarrow> 'cfg Taichain \<Rightarrow> error option \<times> 'cfg Taichain \<times> call list" where
  "tai_StartMining local s =
     (case tai_Etherbase s of
        ((eb, Some err), s1) \<Rightarrow> (Some (ErrCoinbaseMissing err), s1, [])
      | ((eb, None), s1) \<Rightarrow>
          (None, (if local then s1\<lparr>acceptFruits := 1\<rparr> else s1), [(''Miner.Start'', [AAddr eb])]))"

text \<open>
  \<open>startPbftServer\<close> stores the node once it is created; the error of starting it is
  returned to \<open>Start\<close>, which ignores it and only looks at the stored pointer.
\<close>

definition tai_startPbftServer ::
  "'cfg services \<Rightarrow> 'cfg Taichain \<Rightarrow> error option \<times> 'cfg Taichain \<times> call list" where
  "tai_startPbftServer S s =
     (case ToECDSA S (CommitteeKey (config s)) of
        Inl err \<Rightarrow> (Some err, s, [])
      | Inr priv \<Rightarrow>
          (case tbft_NewNode S priv (Port (config s)) (StandbyPort (config s)) of
             Inl err \<Rightarrow> (Some err, s, [])
           | Inr n1 \<Rightarrow>
               (tbft_Node_Start S n1, s\<lparr>pbftServer := Some n1\<rparr>, [(''tbft.Node.Start'', [ANum (int n1)])])))"

definition tai_stopPbftServer :: "'cfg Taichain \<Rightarrow> call list" where
  "tai_stopPbftServer s =
     (case pbftServer s of None \<Rightarrow> [] | Some n \<Rightarrow> [(''tbft.Node.Stop'', [ANum (int n)])])"

definition tai_Start ::
  "'cfg services \<Rightarrow> Server \<Rightarrow> 'cfg Taichain \<Rightarrow> error option \<times> 'cfg Taichain \<times> call list" where
  "tai_Start S srvr s =
     (let s1 = s\<lparr>netRPCService := Some (networkID s)\<rparr>;
          cs1 = [(''startBloomHandlers'', []), (''trueapi.NewPublicNetAPI'', [ANum (uint (networkID s))])]
      in if word_sless 0 (LightServ (config s1)) \<and> word_sle (MaxPeers srvr) (LightPeers (config s1))
         then (Some (ErrInvalidPeerConfig (LightPeers (config s1)) (MaxPeers srvr)), s1, cs1)
         else
           (let maxPeers = (if word_sless 0 (LightServ (config s1))
                            then MaxPeers srvr - LightPeers (config s1) else MaxPeers srvr);
                cs2 = cs1 @ [(''ProtocolManager.Start'', [ANum (sint maxPeers)])]
                          @ (if lesServer s1 then [(''LesServer.Start'', [])] else [])
            in case tai_startPbftServer S s1 of
                 (pbftErr, s2, cs3) \<Rightarrow>
                   (case pbftServer s2 of
                      None \<Rightarrow> (Some ErrPbftServerFailed, s2, cs2 @ cs3)
                    | Some srv \<Rightarrow>
                        (None, s2,
                         cs2 @ cs3 @ [(''PbftAgent.server'', [ANum (int srv)]),
                                      (''PbftAgent.Start'', []), (''Election.Start'', []),
                                      (''SnailPool.Start'', []),
                                      (''ProtocolManager.Start2'', [ANum (sint maxPeers)])]
                           @ (if lesServer s2 then [(''LesServer.Start'', [])] else [])))))"

text \<open>\<open>Stop\<close> closes the shutdown channel last; closing a closed channel panics.\<close>

definition tai_Stop :: "'cfg Taichain \<Rightarrow> (error option \<times> 'cfg Taichain \<times> call list) result" where
  "tai_Stop s =
     (let cs = tai_stopPbftServer s
                 @ [(''ChainIndexer.Close'', []), (''BlockChain.Stop'', []),
                    (''SnailBlockChain.Stop'', []), (''ProtocolManager.Stop'', [])]
                 @ (if lesServer s then [(''LesServer.Stop'', [])] else [])
                 @ [(''TxPool.Stop'', []), (''SnailPool.Stop'', []), (''Miner.Stop'', []),
                    (''TypeMux.Stop'', []), (''Database.Close'', [])]
      in if shutdownClosed s then Panic else Ret (None, s\<lparr>shutdownClosed := True\<rparr>, cs))"

subsection \<open>Package etrue\<close>

text \<open>
  The service of package etrue, from its own source file; the results have the shape
  described for package tai.
\<close>

definition etrue_CreateDB ::
  "'cfg ServiceContext \<Rightarrow> 'cfg Config \<Rightarrow> string \<Rightarrow> (error + 'cfg Database) \<times> call list" where
  "etrue_CreateDB ctx cfg name =
     (case OpenDatabase ctx name of
        Inl err \<Rightarrow> (Inl err, [])
      | Inr (db, isLDB) \<Rightarrow>
          (Inr db, if isLDB then [(''db.Meter'', [AStr ''etrue/db/chaindata/''])] else []))"

definition etrue_New ::
  "'cfg extern \<Rightarrow> 'cfg services \<Rightarrow> 'cfg ServiceContext \<Rightarrow> 'cfg Config
     \<Rightarrow> ((error + 'cfg Taichain) \<times> 'cfg Database option \<times> call list) result" where
  "etrue_New X S ctx cfg =
     (if SyncMode cfg = LightSync S
      then Ret (Inl (ErrLightSync ''can't run etrue.Taichain in light sync mode, use les.LightTruechain''), None, [])
      else if \<not> IsValid S (SyncMode cfg) then Ret (Inl (ErrInvalidSyncMode (SyncMode cfg)), None, [])
      else
        (case etrue_CreateDB ctx cfg ''chaindata'' of
           (Inl err, cs) \<Rightarrow> Ret (Inl err, None, cs)
         | (Inr db, cs) \<Rightarrow>
             (case SetupGenesisBlock X db (c_Genesis cfg) of
                Panic \<Rightarrow> Panic
              | Ret ((chainCfg, genesisHash, snailHash, genesisErr), genesis1, db1) \<Rightarrow>
                  (case (case genesisErr of None \<Rightarrow> None | Some (CompatError c) \<Rightarrow> None | Some e \<Rightarrow> Some e) of
                     Some e \<Rightarrow> Ret (Inl e, Some db1, cs)
                   | None \<Rightarrow>
                       (case CreateConsensusEngine S (PowMode cfg) chainCfg of
                          Panic \<Rightarrow> Panic
                        | Ret eng \<Rightarrow>
                            (let cs1 = cs @ [(''NewBloomIndexer'', [])];
                                 bcVersion = ReadDatabaseVersion db1
                             in if \<not> SkipBcVersionCheck cfg \<and> bcVersion \<noteq> BlockChainVersion S \<and> bcVersion \<noteq> 0
                                then Ret (Inl (ErrVersionMismatch bcVersion (BlockChainVersion S)), Some db1, cs1)
                                else
                                  (let db2 = (if SkipBcVersionCheck cfg then db1
                                              else WriteDatabaseVersion db1 (BlockChainVersion S))
                                   in case NewBlockChain S db2 chainCfg of
                                        Inl err \<Rightarrow> Ret (Inl err, Some db2, cs1)
                                      | Inr bc \<Rightarrow>
                                          (case NewSnailBlockChain S db2 chainCfg bc of
                                             Inl err \<Rightarrow> Ret (Inl err, Some db2, cs1)
                                           | Inr sbc \<Rightarrow>
                                               (let compat = (case genesisErr of Some (CompatError c) \<Rightarrow> Some c | _ \<Rightarrow> None);
                                                    bc1 = (case compat of None \<Rightarrow> bc | Some c \<Rightarrow> chain_SetHead (RewindTo c) bc);
                                                    sbc1 = (case compat of None \<Rightarrow> sbc | Some c \<Rightarrow> chain_SetHead (RewindTo c) sbc);
                                                    db3 = (case compat of None \<Rightarrow> db2
                                                           | Some c \<Rightarrow> snail_WriteChainConfig
                                                               (snail_WriteChainConfig db2 genesisHash chainCfg) genesisHash chainCfg);
                                                    cs2 = cs1 @ (case compat of None \<Rightarrow> []
                                                           | Some c \<Rightarrow> [(''BlockChain.SetHead'', [ANum (uint (RewindTo c))]),
                                                                        (''rawdb.WriteChainConfig'', []),
                                                                        (''SnailBlockChain.SetHead'', [ANum (uint (RewindTo c))]),
                                                                        (''rawdb.WriteChainConfig'', [])]);
                                                    cfg1 = cfg\<lparr>c_Genesis := genesis1,
                                                             TxPoolJournal := (if TxPoolJournal cfg \<noteq> [] then ResolvePath ctx (TxPoolJournal cfg)
                                                                               else TxPoolJournal cfg),
                                                             SnailPoolJournal := (if SnailPoolJournal cfg \<noteq> [] then ResolvePath ctx (SnailPoolJournal cfg)
                                                                                  else SnailPoolJournal cfg)\<rparr>;
                                                    cs3 = cs2 @ [(''ChainIndexer.Start'', []), (''core.NewTxPool'', []),
                                                                 (''chain.NewSnailPool'', []), (''elect.NewElection'', []),
                                                                 (''Engine.SetElection'', []), (''Engine.SetSnailChainReader'', []),
                                                                 (''Election.SetEngine'', []), (''NewPbftAgent'', [])]
                                                in case NewProtocolManager S chainCfg (SyncMode cfg1) (NetworkId cfg1) of
                                                     Inl err \<Rightarrow> Ret (Inl err, Some db3, cs3)
                                                   | Inr dl \<Rightarrow>
                                                       Ret (Inr \<lparr>config = cfg1, chainConfig = chainCfg, chainDb = db3, engine = eng,
                                                                 blockchain = bc1, snailblockchain = sbc1, downloader = dl,
                                                                 acceptFruits = 0, lesServer = False, pbftServer = None,
                                                                 netRPCService = None, etherbase = c_Etherbase cfg1,
                                                                 networkID = NetworkId cfg1, gasPrice = c_GasPrice cfg1,
                                                                 wallets = AccountWallets ctx, shutdownClosed = False\<rparr>,
                                                            Some db3,
                                                            cs3 @ [(''miner.New'', []),
                                                                   (''Miner.SetExtra'', [ABytes (makeExtraData S (c_ExtraData cfg1))])]
                                                              @ (case ToECDSA S (CommitteeKey cfg1) of
                                                                   Inl err \<Rightarrow> []
                                                                 | Inr committeeKey \<Rightarrow>
                                                                     [(''Miner.SetElection'',
                                                                       [ABool (EnableElection cfg1), ABytes (FromECDSAPub S committeeKey)])])
                                                              @ [(''gasprice.NewOracle'', [])]))))))))))"


definition etrue_AddLesServer :: "'cfg Taichain \<Rightarrow> 'cfg Taichain \<times> call list" where
  "etrue_AddLesServer s = (s\<lparr>lesServer := True\<rparr>, [(''LesServer.SetBloomBitsIndexer'', [])])"

definition etrue_Etherbase :: "'cfg Taichain \<Rightarrow> (address \<times> error option) \<times> 'cfg Taichain" where
  "etrue_Etherbase s =
     (if etherbase s \<noteq> 0 then ((etherbase s, None), s)
      else
        (case wallets s of
           (acct # accts) # ws \<Rightarrow> ((acct, None), s\<lparr>etherbase := acct\<rparr>)
         | _ \<Rightarrow> ((0, Some ErrCoinbaseUnspecified), s)))"

definition etrue_StartMining :: "bool \<Rightarrow> 'cfg Taichain \<Rightarrow> error option \<times> 'cfg Taichain \<times> call list" where
  "etrue_StartMining local s =
     (case etrue_Etherbase s of
        ((eb, Some err), s1) \<Rightarrow> (Some (ErrCoinbaseMissing err), s1, [])
      | ((eb, None), s1) \<Rightarrow>
          (None, (if local then s1\<lparr>acceptFruits := 1\<rparr> else s1), [(''Miner.Start'', [AAddr eb])]))"

definition etrue_startPbftServer ::
  "'cfg services \<Rightarrow> 'cfg Taichain \<Rightarrow> error option \<times> 'cfg Taichain \<times> call list" where
  "etrue_startPbftServer S s =
     (case ToECDSA S (CommitteeKey (config s)) of
        Inl err \<Rightarrow> (Some err, s, [])
      | Inr priv \<Rightarrow>
          (case tbft_NewNode S priv (Port (config s)) (StandbyPort (config s)) of
             Inl err \<Rightarrow> (Some err, s, [])
           | Inr n1 \<Rightarrow>
               (tbft_Node_Start S n1, s\<lparr>pbftServer := Some n1\<rparr>, [(''tbft.Node.Start'', [ANum (int n1)])])))"

definition etrue_stopPbftServer :: "'cfg Taichain \<Rightarrow> call list" where
  "etrue_stopPbftServer s =
     (case pbftServer s of None \<Rightarrow> [] | Some n \<Rightarrow> [(''tbft.Node.Stop'', [ANum (int n)])])"

definition etrue_Start ::
  "'cfg services \<Rightarrow> Server \<Rightarrow> 'cfg Taichain \<Rightarrow> error option \<times> 'cfg Taichain \<times> call list" where
  "etrue_Start S srvr s =
     (let s1 = s\<lparr>netRPCService := Some (networkID s)\<rparr>;
          cs1 = [(''startBloomHandlers'', []), (''trueapi.NewPublicNetAPI'', [ANum (uint (networkID s))])]
      in if word_sless 0 (LightServ (config s1)) \<and> word_sle (MaxPeers srvr) (LightPeers (config s1))
         then (Some (ErrInvalidPeerConfig (LightPeers (config s1)) (MaxPeers srvr)), s1, cs1)
         else
           (let maxPeers = (if word_sless 0 (LightServ (config s1))
                            then MaxPeers srvr - LightPeers (config s1) else MaxPeers srvr);
                cs2 = cs1 @ [(''ProtocolManager.Start'', [ANum (sint maxPeers)])]
                          @ (if lesServer s1 then [(''LesServer.Start'', [])] else [])
            in case etrue_startPbftServer S s1 of
                 (pbftErr, s2, cs3) \<Rightarrow>
                   (case pbftServer s2 of
                      None \<Rightarrow> (Some ErrPbftServerFailed, s2, cs2 @ cs3)
                    | Some srv \<Rightarrow>
                        (None, s2,
                         cs2 @ cs3 @ [(''PbftAgent.server'', [ANum (int srv)]),
                                      (''PbftAgent.Start'', []), (''Election.Start'', []),
                                      (''SnailPool.Start'', []),
                                      (''ProtocolManager.Start2'', [ANum (sint maxPeers)])]
                           @ (if lesServer s2 then [(''LesServer.Start'', [])] else [])))))"

definition etrue_Stop :: "'cfg Taichain \<Rightarrow> (error option \<times> 'cfg Taichain \<times> call list) result" where
  "etrue_Stop s =
     (let cs = etrue_stopPbftServer s
                 @ [(''ChainIndexer.Close'', []), (''BlockChain.Stop'', []),
                    (''SnailBlockChain.Stop'', []), (''ProtocolManager.Stop'', [])]
                 @ (if lesServer s then [(''LesServer.Stop'', [])] else [])
                 @ [(''TxPool.Stop'', []), (''SnailPool.Stop'', []), (''Miner.Stop'', []),
                    (''TypeMux.Stop'', []), (''Database.Close'', [])]
      in if shutdownClosed s then Panic else Ret (None, s\<lparr>shutdownClosed := True\<rparr>, cs))"

subsection \<open>The API backend of the full node\<close>

definition TrueAPIBackend_SetHead :: "uint64 \<Rightarrow> 'cfg Taichain \<Rightarrow> 'cfg Taichain \<times> call list" where
  "TrueAPIBackend_SetHead number s =
     (let s1 = s\<lparr>downloader := Downloader_Cancel (downloader s)\<rparr>
      in (s1\<lparr>blockchain := chain_SetHead number (blockchain s1)\<rparr>,
          [(''Downloader.Cancel'', []), (''BlockChain.SetHead'', [ANum (uint number)])]))"

definition TrueAPIBackend_SetSnailHead :: "uint64 \<Rightarrow> 'cfg Taichain \<Rightarrow> 'cfg Taichain \<times> call list" where
  "TrueAPIBackend_SetSnailHead number s =
     (let s1 = s\<lparr>downloader := Downloader_Cancel (downloader s)\<rparr>
      in (s1\<lparr>snailblockchain := chain_SetHead number (snailblockchain s1)\<rparr>,
          [(''Downloader.Cancel'', []), (''SnailBlockChain.SetHead'', [ANum (uint number)])]))"

section \<open>Package les: the API backend of the light node\<close>

text \<open>
  Of \<open>LightTai\<close> the light chain and the downloader of the protocol manager are kept.
  \<open>rpc.BlockNumber\<close> is an \<open>int64\<close>; the \<open>context.Context\<close> arguments are not used by
  the functions below and are left out. A nil pointer, map or slice is \<open>None\<close>.
\<close>

record LightTai =
  lt_blockchain :: chain
  lt_downloader :: Downloader

definition LesApiBackend_CurrentSnailBlock :: "LightTai \<Rightarrow> SnailBlock option" where
  "LesApiBackend_CurrentSnailBlock b = None"

definition LesApiBackend_SetHead :: "uint64 \<Rightarrow> LightTai \<Rightarrow> LightTai \<times> call list" where
  "LesApiBackend_SetHead number b =
     (let b1 = b\<lparr>lt_downloader := Downloader_Cancel (lt_downloader b)\<rparr>
      in (b1\<lparr>lt_blockchain := chain_SetHead number (lt_blockchain b1)\<rparr>,
          [(''Downloader.Cancel'', []), (''LightChain.SetHead'', [ANum (uint number)])]))"

definition LesApiBackend_SetSnailHead :: "uint64 \<Rightarrow> LightTai \<Rightarrow> LightTai \<times> call list" where
  "LesApiBackend_SetSnailHead number b = (b, [])"

definition LesApiBackend_SnailHeaderByNumber :: "LightTai \<Rightarrow> 64 word \<Rightarrow> SnailHeader option \<times> error option" where
  "LesApiBackend_SnailHeaderByNumber b blockNr = (None, None)"

definition LesApiBackend_SnailBlockByNumber :: "LightTai \<Rightarrow> 64 word \<Rightarrow> SnailBlock option \<times> error option" where
  "LesApiBackend_SnailBlockByNumber b blockNr = (None, None)"

definition LesApiBackend_GetFruit :: "LightTai \<Rightarrow> hash \<Rightarrow> SnailBlock option \<times> error option" where
  "LesApiBackend_GetFruit b fastblockHash = (None, None)"

definition LesApiBackend_GetSnailBlock :: "LightTai \<Rightarrow> hash \<Rightarrow> SnailBlock option \<times> error option" where
  "LesApiBackend_GetSnailBlock b blockHash = (None, None)"

definition LesApiBackend_GetCommittee ::
  "LightTai \<Rightarrow> 64 word \<Rightarrow> (string \<times> string) list option \<times> error option" where
  "LesApiBackend_GetCommittee b number = (None, None)"

definition LesApiBackend_GetCurrentCommitteeNumber :: "LightTai \<Rightarrow> int option" where
  "LesApiBackend_GetCurrentCommitteeNumber b = None"

definition LesApiBackend_SnailPoolContent :: "LightTai \<Rightarrow> SnailBlock list option" where
  "LesApiBackend_SnailPoolContent b = None"

definition LesApiBackend_SnailPoolInspect :: "LightTai \<Rightarrow> SnailBlock list option" where
  "LesApiBackend_SnailPoolInspect b = None"

definition LesApiBackend_SnailPoolStats :: "LightTai \<Rightarrow> 64 word \<times> 64 word" where
  "LesApiBackend_SnailPoolStats b = (0, 0)"

section \<open>Observations and the specification's rules\<close>

text \<open>
  The Go return values of a call of the genesis functions, and the database it leaves,
  without the rest of the state; \<open>None\<close> when the call panics.
\<close>

definition returned :: "('a \<times> 'g \<times> 'd) result \<Rightarrow> 'a option" where
  "returned r = (case r of Panic \<Rightarrow> None | Ret (v, g, db) \<Rightarrow> Some v)"

definition left_db :: "('a \<times> 'g \<times> 'd) result \<Rightarrow> 'd option" where
  "left_db r = (case r of Panic \<Rightarrow> None | Ret (v, g, db) \<Rightarrow> Some db)"

text \<open>\<open>g.ToFastBlock(nil).Hash()\<close>, the hash the setup functions compare with the stored one.\<close>

definition fastGenesisHash :: "'cfg extern \<Rightarrow> 'cfg Genesis \<Rightarrow> hash option" where
  "fastGenesisHash X g =
     (case ToFastBlock X None g of Panic \<Rightarrow> None | Ret (b, g1, mem) \<Rightarrow> Some (BlockHash X b))"

text \<open>
  The rule of the specification for the total difficulty of a stored snail block:
  parent.td + block.difficulty + the sum of the difficulties of its fruits.
\<close>

definition spec_totalDifficulty :: "int \<Rightarrow> SnailBlock \<Rightarrow> int" where
  "spec_totalDifficulty parent_td b =
     parent_td + (case sh_Difficulty (sb_header b) of None \<Rightarrow> 0 | Some d \<Rightarrow> d)
       + sum_list (map (\<lambda>f. case sh_FruitDifficulty (sb_header f) of None \<Rightarrow> 0 | Some d \<Rightarrow> d) (sb_fruits b))"

text \<open>
  The total difficulty \<open>CommitSnail\<close> stored for the block it wrote, next to what the
  rule of the specification gives for that block on top of a parent difficulty of 0.
\<close>

definition CommitSnail_td :: "'cfg extern \<Rightarrow> 'cfg Database \<Rightarrow> 'cfg Genesis \<Rightarrow> (int option \<times> int) option" where
  "CommitSnail_td X db g =
     (case CommitSnail X db g of
        Ret ((Some block, None), g1, db1) \<Rightarrow>
          Some (snail_ReadTd db1 (SnailBlockHash X block) (snail_NumberU64 block), spec_totalDifficulty 0 block)
      | _ \<Rightarrow> None)"

text \<open>What \<open>New\<close> returned: the error, if any, and the calls it made.\<close>

definition New_outcome ::
  "((error + 'cfg Taichain) \<times> 'cfg Database option \<times> call list) result \<Rightarrow> (error option \<times> call list) option" where
  "New_outcome r =
     (case r of
        Panic \<Rightarrow> None
      | Ret (Inl e, db, cs) \<Rightarrow> Some (Some e, cs)
      | Ret (Inr t, db, cs) \<Rightarrow> Some (None, cs))"

text \<open>
  Equality modulo the renaming of package tai to package etrue: the two light-sync
  messages and the two database meter prefixes correspond, everything else is equal.
\<close>

definition error_renamed :: "error \<Rightarrow> error \<Rightarrow> bool" where
  "error_renamed e1 e2 \<longleftrightarrow>
     e2 = e1 \<or>
     (e1 = ErrLightSync ''can't run tai.Taichain in light sync mode, use les.LightTruechain'' \<and>
      e2 = ErrLightSync ''can't run etrue.Taichain in light sync mode, use les.LightTruechain'')"

definition call_renamed :: "call \<Rightarrow> call \<Rightarrow> bool" where
  "call_renamed c1 c2 \<longleftrightarrow>
     c2 = c1 \<or>
     (c1 = (''db.Meter'', [AStr ''tai/db/chaindata/'']) \<and> c2 = (''db.Meter'', [AStr ''etrue/db/chaindata/'']))"

definition New_renamed ::
  "((error + 'cfg Taichain) \<times> 'cfg Database option \<times> call list) result
     \<Rightarrow> ((error + 'cfg Taichain) \<times> 'cfg Database option \<times> call list) result \<Rightarrow> bool" where
  "New_renamed r1 r2 =
     (case (r1, r2) of
        (Panic, Panic) \<Rightarrow> True
      | (Ret (Inl e1, d1, cs1), Ret (Inl e2, d2, cs2)) \<Rightarrow>
          error_renamed e1 e2 \<and> d1 = d2 \<and> list_all2 call_renamed cs1 cs2
      | (Ret (Inr t1, d1, cs1), Ret (Inr t2, d2, cs2)) \<Rightarrow>
          t1 = t2 \<and> d1 = d2 \<and> list_all2 call_renamed cs1 cs2
      | _ \<Rightarrow> False)"

definition accepts :: "((error + 'cfg Taichain) \<times> 'cfg Database option \<times> call list) result \<Rightarrow> bool" where
  "accepts r = (case r of Ret (Inr t, d, cs) \<Rightarrow> True | _ \<Rightarrow> False)"

section \<open>A concrete environment\<close>

text \<open>
  One instance of the collaborators, small enough to evaluate, on which the theorems
  below are exercised: chain configurations are names, a block hash adds up a few
  header fields, a public key decodes when it has 65 bytes and starts with 04, and two
  different chain configurations are incompatible with a rewind to block 1. The fruit
  ratio is 600.
\<close>

definition testEnv :: "string extern" where
  "testEnv = \<lparr>AllMinervaProtocolChanges = ''all'', MainnetChainConfig = ''mainnet'',
     TestnetChainConfig = ''testnet'',
     TestnetGenesisHash = 1558862721, TestnetSnailGenesisHash = 1537893128,
     GenesisGasLimit = 4712388, GenesisDifficulty = 131072, FruitBlockRatio = 600,
     CheckCompatible = (\<lambda>stored new height.
        if stored = new then None
        else Some \<lparr>What = ''fork block'', StoredConfig = Some 2, NewConfig = Some 3, RewindTo = 1\<rparr>),
     UnmarshalPubkey = (\<lambda>k. if length k = 130 \<and> take 2 k = ''04'' then Some (int (length k), 0) else None),
     PubkeyToAddress = (\<lambda>(x, y). word_of_int (x + y)),
     IntermediateRoot = (\<lambda>alloc. case alloc 0x0172479e14f038B7C825975927d5d8CcDF1670A2 of
        None \<Rightarrow> 7 | Some a \<Rightarrow> word_of_int (a_Balance a)),
     BlockHash = (\<lambda>b. word_of_int (h_Time (b_header b)) + ucast (h_GasLimit (b_header b)) + 1),
     SnailBlockHash = (\<lambda>b. word_of_int (sh_Time (sb_header b)) + ucast (sh_Nonce (sb_header b)) + 1000)\<rparr>"

definition testServices :: "string services" where
  "testServices = \<lparr>LightSync = 3, IsValid = (\<lambda>m. m = 0 \<or> m = 1 \<or> m = 2 \<or> m = 3), BlockChainVersion = 3,
     TIP9_SnailNumber = (\<lambda>c. Some 47000),
     NewBlockChain = (\<lambda>db c. Inr \<lparr>currentNumber = 4\<rparr>),
     NewSnailBlockChain = (\<lambda>db c bc. Inr \<lparr>currentNumber = 2\<rparr>),
     NewProtocolManager = (\<lambda>c m n. Inr \<lparr>synchronising = False, outstanding = []\<rparr>),
     ToECDSA = (\<lambda>k. if length k = 64 then Inr 7 else Inl (ErrExternal 1)),
     FromECDSAPub = (\<lambda>k. ''04''),
     tbft_NewNode = (\<lambda>k p q. Inr 1),
     tbft_Node_Start = (\<lambda>n. None),
     defaultExtraData = ''d7'',
     MaximumExtraDataSize = 32\<rparr>"

text \<open>A database in which the main-net genesis fast block has been committed.\<close>

definition mainnetDb :: "string Database" where
  "mainnetDb = (case CommitFast testEnv NewMemDatabase (DefaultGenesisBlock testEnv) of
                  Panic \<Rightarrow> NewMemDatabase | Ret (r, g, db) \<Rightarrow> db)"

definition noConfigGenesis :: "string Genesis" where
  "noConfigGenesis = (DefaultGenesisBlock testEnv)\<lparr>Config := None, GasLimit := 4\<rparr>"

definition testnetLikeGenesis :: "string Genesis" where
  "testnetLikeGenesis = (DefaultGenesisBlock testEnv)\<lparr>Config := Some ''testnet'', GasLimit := 20971520,
     Timestamp := 1537891200\<rparr>"

text \<open>
  A database that holds the main-net genesis under the configuration ''mainnet'' and
  whose head header is block 4, at database version 3 and at the stale version 1; a
  node configuration that supplies the same genesis under another configuration.
\<close>

definition upgradeDb :: "string Database" where
  "upgradeDb = NewMemDatabase\<lparr>canonicalHash := [0 \<mapsto> 16777217],
     headerNumber := [16777217 \<mapsto> 0, 99 \<mapsto> 4], headHeaderHash := Some 99,
     chainConfigs := [16777217 \<mapsto> ''mainnet''], databaseVersion := Some 3\<rparr>"

definition staleDb :: "string Database" where
  "staleDb = upgradeDb\<lparr>databaseVersion := Some 1\<rparr>"

definition upgradeCtx :: "string ServiceContext" where
  "upgradeCtx = \<lparr>OpenDatabase = (\<lambda>name. Inr (upgradeDb, True)), ResolvePath = (\<lambda>p. ''/data/'' @ p),
     AccountWallets = []\<rparr>"

definition staleCtx :: "string ServiceContext" where
  "staleCtx = \<lparr>OpenDatabase = (\<lambda>name. Inr (staleDb, True)), ResolvePath = (\<lambda>p. ''/data/'' @ p),
     AccountWallets = []\<rparr>"

definition upgradeConfig :: "string Config" where
  "upgradeConfig = \<lparr>SyncMode = 0,
     c_Genesis = Some ((DefaultGenesisBlock testEnv)\<lparr>Config := Some ''upgraded''\<rparr>),
     SkipBcVersionCheck = False, NetworkId = 20515, c_GasPrice = None, c_Etherbase = 0,
     PowMode = ModeFake, LightServ = 0, LightPeers = 0, CommitteeKey = [], c_ExtraData = [],
     EnableElection = False, TxPoolJournal = ''transactions.rlp'', SnailPoolJournal = ''fruits.rlp'',
     Port = 30310, StandbyPort = 30311\<rparr>"

definition lightConfig :: "string Config" where
  "lightConfig = upgradeConfig\<lparr>SyncMode := 3\<rparr>"

definition testNode :: "string Taichain" where
  "testNode = \<lparr>config = upgradeConfig, chainConfig = Some ''mainnet'', chainDb = upgradeDb,
     engine = Faker, blockchain = \<lparr>currentNumber = 10\<rparr>, snailblockchain = \<lparr>currentNumber = 5\<rparr>,
     downloader = \<lparr>synchronising = True, outstanding = [1, 2]\<rparr>, acceptFruits = 0,
     lesServer = False, pbftServer = None, netRPCService = None,
     etherbase = 0, networkID = 20515, gasPrice = None,
     wallets = [], shutdownClosed = False\<rparr>"

section \<open>Properties of the genesis code\<close>

subsection \<open>The genesis blocks\<close>

text \<open>Marking the committee keeps its length, marks every member, and is idempotent.\<close>

lemma markCommittee_length: "markCommittee X ms = Ret ms' \<Longrightarrow> length ms' = length ms"
  by (induction ms arbitrary: ms') (auto split: option.splits result.splits)

lemma markCommittee_marked:
  "markCommittee X ms = Ret ms' \<Longrightarrow> m \<in> set ms' \<Longrightarrow> m_Flag m = StateUsedFlag \<and> m_MType m = TypeFixed"
  by (induction ms arbitrary: ms') (auto split: option.splits result.splits)

lemma markCommittee_idem: "markCommittee X ms = Ret ms' \<Longrightarrow> markCommittee X ms' = Ret ms'"
  by (induction ms arbitrary: ms') (auto split: option.splits result.splits)

text \<open>
  The fast block does not depend on the database the state is written to, and building
  it again from the marked specification gives the same block.
\<close>

lemma ToFastBlock_db: 
  "ToFastBlock X dbo g = Ret (b, g1, d1) \<Longrightarrow> \<exists>d2. ToFastBlock X dbo' g = Ret (b, g1, d2)"
  by (auto simp: ToFastBlock_def Let_def split: result.splits)

lemma ToFastBlock_Some:
  "ToFastBlock X None g = Ret (b, g1, mem) \<Longrightarrow>
   ToFastBlock X (Some db) g = Ret (b, g1, db\<lparr>stateTries := (stateTries db)(IntermediateRoot X (Alloc g) \<mapsto> Alloc g)\<rparr>)"
  by (auto simp: ToFastBlock_def Let_def split: result.splits)

lemma ToFastBlock_fields:
  "ToFastBlock X dbo g = Ret (b, g1, d1) \<Longrightarrow>
     g1 = g\<lparr>Committee := b_infos b\<rparr> \<and> h_Number (b_header b) = uint (Number g) \<and>
     markCommittee X (Committee g) = Ret (b_infos b)"
  by (auto simp: ToFastBlock_def Let_def split: result.splits)

lemma ToFastBlock_again:
  assumes "ToFastBlock X None g = Ret (b, g1, mem)"
  shows "ToFastBlock X None g1 = Ret (b, g1, mem)"
proof -
  from ToFastBlock_fields [OF assms] have g1: "g1 = g\<lparr>Committee := b_infos b\<rparr>"
    and mc: "markCommittee X (Committee g) = Ret (b_infos b)" by simp_all
  from markCommittee_idem [OF mc] assms show ?thesis
    by (auto simp: ToFastBlock_def Let_def g1 split: result.splits)
qed

text \<open>\<open>big.Int.Div\<close> returns the Euclidean quotient whenever the divisor is not zero.\<close>

lemma big_Div_Ret: "y \<noteq> 0 \<Longrightarrow> \<exists>q. big_Div x y = Ret q \<and> 0 \<le> x - q * y \<and> x - q * y < \<bar>y\<bar>"
proof -
  assume y: "y \<noteq> 0"
  show ?thesis
  proof (cases "0 < y")
    case True
    have m: "x - (x div y) * y = x mod y" by (simp add: minus_div_mult_eq_mod)
    have "0 \<le> x - (x div y) * y \<and> x - (x div y) * y < \<bar>y\<bar>"
      unfolding m using True by simp
    moreover have "big_Div x y = Ret (x div y)" using True by (simp add: big_Div_def)
    ultimately show ?thesis by blast
  next
    case False
    with y have neg: "0 < - y" by simp
    have m: "x - (x div (- y)) * (- y) = x mod (- y)" by (rule minus_div_mult_eq_mod)
    have "0 \<le> x - (x div (- y)) * (- y) \<and> x - (x div (- y)) * (- y) < \<bar>y\<bar>"
      unfolding m using neg by simp
    then have "0 \<le> x - (- (x div (- y))) * y \<and> x - (- (x div (- y))) * y < \<bar>y\<bar>" by simp
    moreover have "big_Div x y = Ret (- (x div (- y)))" using False y by (simp add: big_Div_def)
    ultimately show ?thesis by blast
  qed
qed

text \<open>The shape of the snail block, when the fast block is built and the ratio is not zero.\<close>

lemma ToSnailBlock_Ret:
  assumes fb: "ToFastBlock X None g = Ret (fastBlock, gm, mem)"
    and q: "big_Div (case Difficulty g of None \<Rightarrow> GenesisDifficulty X | Some d \<Rightarrow> d) (FruitBlockRatio X) = Ret q"
  shows "\<exists>head fruitHead db1. ToSnailBlock X dbo g =
           Ret (SnailBlock head [SnailBlock fruitHead []],
                gm\<lparr>Difficulty := Some (case Difficulty g of None \<Rightarrow> GenesisDifficulty X | Some d \<Rightarrow> d)\<rparr>, db1) \<and>
         sh_Number head = uint (Number g) \<and>
         sh_Difficulty head = Some (case Difficulty g of None \<Rightarrow> GenesisDifficulty X | Some d \<Rightarrow> d) \<and>
         sh_FruitDifficulty fruitHead = Some q \<and>
         sh_FastNumber fruitHead = Some (h_Number (b_header fastBlock)) \<and>
         sh_FastHash fruitHead = BlockHash X fastBlock \<and>
         (\<forall>db. dbo = Some db \<longrightarrow> snailCanonicalHash db1 = snailCanonicalHash db \<and> canonicalHash db1 = canonicalHash db
             \<and> snailTd db1 = snailTd db \<and> blocks db1 = blocks db \<and> snailBlocks db1 = snailBlocks db)"
  using fb q
  by (auto simp: ToSnailBlock_def ToFastBlock_def Let_def split: result.splits option.splits)

lemma ToSnailBlock_db:
  "ToSnailBlock X dbo g = Ret (b, g1, d1) \<Longrightarrow> \<exists>d2. ToSnailBlock X dbo' g = Ret (b, g1, d2)"
  by (auto simp: ToSnailBlock_def ToFastBlock_def Let_def split: result.splits)


lemma ToSnailBlock_head:
  "ToSnailBlock X dbo g = Ret (b, g', d) \<Longrightarrow>
     sh_Time (sb_header b) = uint (Timestamp g) \<and> sh_Nonce (sb_header b) = Nonce g"
  by (auto simp: ToSnailBlock_def Let_def split: result.splits)



subsection \<open>Committing and setting up\<close>

lemma CommitFast_Ret:
  assumes fb: "ToFastBlock X None g = Ret (b, g1, mem)" and n: "Number g = 0"
  shows "\<exists>db1. CommitFast X db g = Ret ((Some b, None), g1, db1) \<and>
           ReadCanonicalHash db1 0 = BlockHash X b \<and>
           ReadBlock db1 (BlockHash X b) 0 = Some b \<and>
           ReadChainConfig db1 (BlockHash X b) =
             Some (case Config g of None \<Rightarrow> AllMinervaProtocolChanges X | Some c \<Rightarrow> c) \<and>
           snailCanonicalHash db1 = snailCanonicalHash db"
proof -
  from ToFastBlock_fields [OF fb] n have num: "h_Number (b_header b) = 0" and g1: "Config g1 = Config g"
    by simp_all
  have nu: "NumberU64 b = 0" by (simp add: NumberU64_def num)
  show ?thesis
    using ToFastBlock_Some [OF fb, of db] num nu g1
    by (simp add: CommitFast_def Let_def WriteBlock_def WriteReceipts_def WriteCanonicalHash_def
        WriteHeadBlockHash_def WriteHeadHeaderHash_def WriteStateGcBR_def WriteChainConfig_def
        ReadCanonicalHash_def ReadBlock_def ReadChainConfig_def split: option.splits)
qed

lemma CommitSnail_Ret:
  assumes fb: "ToFastBlock X None g = Ret (fastBlock, gm, mem)" and n: "Number g = 0"
    and r: "FruitBlockRatio X \<noteq> 0"
  shows "\<exists>block g1 db1 d. CommitSnail X db g = Ret ((Some block, None), g1, db1) \<and>
           (\<exists>g' mem'. ToSnailBlock X None g = Ret (block, g', mem')) \<and>
           d = (case Difficulty g of None \<Rightarrow> GenesisDifficulty X | Some d \<Rightarrow> d) \<and>
           sh_Difficulty (sb_header block) = Some d \<and>
           snail_ReadTd db1 (SnailBlockHash X block) (snail_NumberU64 block) = Some d \<and>
           snail_ReadCanonicalHash db1 0 = SnailBlockHash X block \<and>
           snail_ReadBlock db1 (SnailBlockHash X block) 0 = Some block \<and>
           canonicalHash db1 = canonicalHash db \<and> blocks db1 = blocks db"
proof -
  let ?d = "case Difficulty g of None \<Rightarrow> GenesisDifficulty X | Some d \<Rightarrow> d"
  from big_Div_Ret [OF r, of ?d] obtain q where q: "big_Div ?d (FruitBlockRatio X) = Ret q" by blast
  from ToSnailBlock_Ret [OF fb q, of "Some db"] obtain head fruitHead db1 where
    sb: "ToSnailBlock X (Some db) g = Ret (SnailBlock head [SnailBlock fruitHead []], gm\<lparr>Difficulty := Some ?d\<rparr>, db1)"
    and h: "sh_Number head = uint (Number g)" "sh_Difficulty head = Some ?d"
    and fr: "sh_FruitDifficulty fruitHead = Some q"
      "sh_FastNumber fruitHead = Some (h_Number (b_header fastBlock))"
      "sh_FastHash fruitHead = BlockHash X fastBlock"
    and db1: "canonicalHash db1 = canonicalHash db" "blocks db1 = blocks db"
    by auto
  from ToSnailBlock_db [OF sb, of None] obtain mem' where
    sb': "ToSnailBlock X None g = Ret (SnailBlock head [SnailBlock fruitHead []], gm\<lparr>Difficulty := Some ?d\<rparr>, mem')"
    by blast
  have nu: "snail_NumberU64 (SnailBlock head [SnailBlock fruitHead []]) = 0"
    using h n by (simp add: snail_NumberU64_def)
  have "CommitSnail X db g = Ret ((Some (SnailBlock head [SnailBlock fruitHead []]), None), gm\<lparr>Difficulty := Some ?d\<rparr>,
      snail_WriteHeadHeaderHash (snail_WriteHeadBlockHash (snail_WriteCanonicalHash
        (snail_WriteFtLookupEntries X (snail_WriteBlock X (snail_WriteTd db1
           (SnailBlockHash X (SnailBlock head [SnailBlock fruitHead []])) 0 (Some ?d)) (SnailBlock head [SnailBlock fruitHead []]))
           (SnailBlock head [SnailBlock fruitHead []]))
        (SnailBlockHash X (SnailBlock head [SnailBlock fruitHead []])) 0)
        (SnailBlockHash X (SnailBlock head [SnailBlock fruitHead []])))
        (SnailBlockHash X (SnailBlock head [SnailBlock fruitHead []])))"
    using sb h n nu by (simp add: CommitSnail_def Let_def)
  then show ?thesis
    using h nu db1 sb'
    by (simp add: snail_WriteTd_def snail_WriteBlock_def snail_WriteFtLookupEntries_def
        snail_WriteCanonicalHash_def snail_WriteHeadBlockHash_def snail_WriteHeadHeaderHash_def
        snail_ReadTd_def snail_ReadCanonicalHash_def snail_ReadBlock_def)
qed





lemma setupFast_stored:
  assumes "Config g = Some c" and "ReadCanonicalHash db 0 = stored" and "stored \<noteq> 0"
    and "ToFastBlock X None g = Ret (b, g1, mem)" and "BlockHash X b = stored"
  shows "setupFastGenesisBlock X db (Some g) = fastGenesisConfig X db (Some g1) stored"
  using assms by (simp add: setupFastGenesisBlock_def)

lemma setupSnail_fresh:
  assumes c: "Config g = Some c" and e: "snail_ReadCanonicalHash db 0 = 0"
    and fb: "ToFastBlock X None g = Ret (fastBlock, gm, mem)" and n: "Number g = 0"
    and r: "FruitBlockRatio X \<noteq> 0"
  shows "\<exists>block g1 db1. setupSnailGenesisBlock X db (Some g) =
            Ret ((Some c, SnailBlockHash X block, None), Some g1, db1) \<and>
          (\<exists>g' mem'. ToSnailBlock X None g = Ret (block, g', mem'))"
proof -
  from CommitSnail_Ret [OF fb n r, of db] obtain block g1 db1 g' mem' where
    cs: "CommitSnail X db g = Ret ((Some block, None), g1, db1)"
    and sb: "ToSnailBlock X None g = Ret (block, g', mem')" by blast
  have "Config g1 = Some c"
    using cs c by (auto simp: CommitSnail_def ToSnailBlock_def ToFastBlock_def Let_def
        split: result.splits if_splits)
  then show ?thesis using cs sb c e by (simp add: setupSnailGenesisBlock_def)
qed

text \<open>None of the genesis functions touches the database version.\<close>

lemma ToFastBlock_version:
  "ToFastBlock X (Some db) g = Ret (b, g1, db1) \<Longrightarrow> databaseVersion db1 = databaseVersion db"
  by (auto simp: ToFastBlock_def Let_def split: result.splits)

lemma ToSnailBlock_version:
  "ToSnailBlock X (Some db) g = Ret (b, g1, db1) \<Longrightarrow> databaseVersion db1 = databaseVersion db"
  by (auto simp: ToSnailBlock_def Let_def split: result.splits dest!: ToFastBlock_version)

lemma CommitFast_version:
  "CommitFast X db g = Ret (r, g1, db1) \<Longrightarrow> databaseVersion db1 = databaseVersion db"
  by (auto simp: CommitFast_def Let_def WriteBlock_def WriteReceipts_def WriteCanonicalHash_def
      WriteHeadBlockHash_def WriteHeadHeaderHash_def WriteStateGcBR_def WriteChainConfig_def
      split: result.splits if_splits option.splits dest!: ToFastBlock_version)

lemma CommitSnail_version:
  "CommitSnail X db g = Ret (r, g1, db1) \<Longrightarrow> databaseVersion db1 = databaseVersion db"
  by (auto simp: CommitSnail_def Let_def snail_WriteTd_def snail_WriteBlock_def
      snail_WriteFtLookupEntries_def snail_WriteCanonicalHash_def snail_WriteHeadBlockHash_def
      snail_WriteHeadHeaderHash_def
      split: result.splits if_splits dest!: ToSnailBlock_version)

lemma fastGenesisConfig_version:
  "fastGenesisConfig X db g stored = Ret (r, g1, db1) \<Longrightarrow> databaseVersion db1 = databaseVersion db"
  by (auto simp: fastGenesisConfig_def Let_def WriteChainConfig_def
      split: option.splits if_splits)

lemma setupFast_version:
  "setupFastGenesisBlock X db g = Ret (r, g1, db1) \<Longrightarrow> databaseVersion db1 = databaseVersion db"
  by (auto simp: setupFastGenesisBlock_def Let_def
      split: option.splits if_splits result.splits prod.splits
      dest!: CommitFast_version fastGenesisConfig_version)

lemma setupSnail_version:
  "setupSnailGenesisBlock X db g = Ret (r, g1, db1) \<Longrightarrow> databaseVersion db1 = databaseVersion db"
  by (auto simp: setupSnailGenesisBlock_def Let_def
      split: option.splits if_splits result.splits prod.splits
      dest!: CommitSnail_version)

lemma SetupGenesisBlock_version:
  "SetupGenesisBlock X db g = Ret (r, g1, db1) \<Longrightarrow> ReadDatabaseVersion db1 = ReadDatabaseVersion db"
  by (auto simp: SetupGenesisBlock_def ReadDatabaseVersion_def
      split: option.splits if_splits result.splits prod.splits
      dest!: setupFast_version setupSnail_version)

lemma snail_WriteChainConfig_version:
  "ReadDatabaseVersion (snail_WriteChainConfig db h c) = ReadDatabaseVersion db"
  by (simp add: snail_WriteChainConfig_def ReadDatabaseVersion_def split: option.splits)

lemma ReadDatabaseVersion_Write: "ReadDatabaseVersion (WriteDatabaseVersion db v) = v"
  by (simp add: ReadDatabaseVersion_def WriteDatabaseVersion_def)

subsection \<open>The concrete environment\<close>

lemma testEnv_fast:
  "\<exists>fb gm mem. ToFastBlock testEnv None (DefaultGenesisBlock testEnv) = Ret (fb, gm, mem) \<and>
     BlockHash testEnv fb = 16777217 \<and> h_Number (b_header fb) = 0 \<and>
     map m_Flag (b_infos fb) = [StateUsedFlag, StateUsedFlag, StateUsedFlag, StateUsedFlag] \<and>
     map m_MType (b_infos fb) = [TypeFixed, TypeFixed, TypeFixed, TypeFixed]"
  by (simp add: ToFastBlock_def Let_def testEnv_def DefaultGenesisBlock_def member_def
      key1_def key2_def key3_def key4_def)



lemma mainnetDb_stored: "ReadCanonicalHash mainnetDb 0 = 16777217"
proof -
  from testEnv_fast obtain fb gm mem where
    fb: "ToFastBlock testEnv None (DefaultGenesisBlock testEnv) = Ret (fb, gm, mem)"
    and h: "BlockHash testEnv fb = 16777217" by blast
  have n: "Number (DefaultGenesisBlock testEnv) = 0" by (simp add: DefaultGenesisBlock_def)
  from CommitFast_Ret [OF fb n, of NewMemDatabase] h show ?thesis by (auto simp: mainnetDb_def)
qed

lemma upgrade_setup:
  assumes db: "db = upgradeDb\<lparr>databaseVersion := v\<rparr>"
  shows "\<exists>g1 db1. SetupGenesisBlock testEnv db (c_Genesis upgradeConfig) =
      Ret ((Some ''upgraded'', 16777217, 1330,
            Some (CompatError \<lparr>What = ''fork block'', StoredConfig = Some 2, NewConfig = Some 3, RewindTo = 1\<rparr>)),
           g1, db1)"
proof -
  let ?g = "(DefaultGenesisBlock testEnv)\<lparr>Config := Some ''upgraded''\<rparr>"
  have "\<exists>fb gm mem. ToFastBlock testEnv None ?g = Ret (fb, gm, mem) \<and> BlockHash testEnv fb = 16777217"
    by (simp add: ToFastBlock_def Let_def testEnv_def DefaultGenesisBlock_def member_def
      key1_def key2_def key3_def key4_def)
  then obtain fb gm mem where fb: "ToFastBlock testEnv None ?g = Ret (fb, gm, mem)"
    and h: "BlockHash testEnv fb = 16777217" by blast
  from ToFastBlock_fields [OF fb] have gm: "gm = ?g\<lparr>Committee := b_infos fb\<rparr>" by simp
  have cg: "Config ?g = Some ''upgraded''" by simp
  have st: "ReadCanonicalHash db 0 = 16777217"
    by (simp add: db upgradeDb_def ReadCanonicalHash_def)
  have ne: "(16777217 :: hash) \<noteq> 0" by simp
  have f1: "setupFastGenesisBlock testEnv db (Some ?g) = fastGenesisConfig testEnv db (Some gm) 16777217"
    by (rule setupFast_stored [OF cg st ne fb h])
  have cgm: "Config gm = Some ''upgraded''" by (simp add: gm)
  have f2: "fastGenesisConfig testEnv db (Some gm) 16777217 =
      Ret ((Some ''upgraded'', 16777217,
            Some (CompatError \<lparr>What = ''fork block'', StoredConfig = Some 2, NewConfig = Some 3, RewindTo = 1\<rparr>)),
           Some gm, db)"
    using cgm
    by (simp add: fastGenesisConfig_def configOrDefault_def Let_def db upgradeDb_def ReadChainConfig_def
        ReadHeaderNumber_def ReadHeadHeaderHash_def testEnv_def)
  have sn: "snail_ReadCanonicalHash db 0 = 0"
    by (simp add: db upgradeDb_def NewMemDatabase_def snail_ReadCanonicalHash_def)
  have n: "Number gm = 0" by (simp add: gm DefaultGenesisBlock_def)
  have r: "FruitBlockRatio testEnv \<noteq> 0" by (simp add: testEnv_def)
  from setupSnail_fresh [OF cgm sn ToFastBlock_again [OF fb] n r] obtain block g1 db1 g' mem' where
    s1: "setupSnailGenesisBlock testEnv db (Some gm) =
            Ret ((Some ''upgraded'', SnailBlockHash testEnv block, None), Some g1, db1)"
    and sb: "ToSnailBlock testEnv None gm = Ret (block, g', mem')" by blast
  from ToSnailBlock_head [OF sb] have "SnailBlockHash testEnv block = 1330"
    by (simp add: testEnv_def gm DefaultGenesisBlock_def)
  with s1 f1 f2 show ?thesis
    by (simp add: SetupGenesisBlock_def upgradeConfig_def)
qed

subsection \<open>Claims on the genesis code\<close>



text \<open>
  C2, as amended. The total difficulty that the genesis commit path stores for the snail
  block it writes is the difficulty d of the block itself (\<open>genesis.Difficulty\<close>, or
  \<open>params.GenesisDifficulty\<close> when that is nil), that is parent.td (0) + block.difficulty;
  the difficulty q of the embedded fruit is not added, so the rule of the specification
  would give d + q.
\<close>

theorem C2_genesis_td:
  assumes "Number g = 0" and "FruitBlockRatio X \<noteq> 0"
    and "ToFastBlock X None g = Ret (fastBlock, gm, mem)"
  shows "\<exists>block g1 db1 d q. CommitSnail X db g = Ret ((Some block, None), g1, db1) \<and>
           d = (case Difficulty g of None \<Rightarrow> GenesisDifficulty X | Some d \<Rightarrow> d) \<and>
           sh_Difficulty (sb_header block) = Some d \<and>
           snail_ReadTd db1 (SnailBlockHash X block) (snail_NumberU64 block) = Some d \<and>
           big_Div d (FruitBlockRatio X) = Ret q \<and>
           spec_totalDifficulty 0 block = d + q"
proof -
  let ?d = "case Difficulty g of None \<Rightarrow> GenesisDifficulty X | Some d \<Rightarrow> d"
  from big_Div_Ret [OF assms(2), of ?d] obtain q where q: "big_Div ?d (FruitBlockRatio X) = Ret q"
    by blast
  from CommitSnail_Ret [OF assms(3) assms(1) assms(2), of db] obtain block g1 db1 g' mem' where
    c: "CommitSnail X db g = Ret ((Some block, None), g1, db1)"
    and t: "ToSnailBlock X None g = Ret (block, g', mem')"
    and dh: "sh_Difficulty (sb_header block) = Some ?d"
    and td: "snail_ReadTd db1 (SnailBlockHash X block) (snail_NumberU64 block) = Some ?d"
    by blast
  from ToSnailBlock_Ret [OF assms(3) q, of None] t obtain fruit where
    "sb_fruits block = [fruit]" "sh_FruitDifficulty (sb_header fruit) = Some q" by auto
  then have "spec_totalDifficulty 0 block = ?d + q" using dh by (simp add: spec_totalDifficulty_def)
  with c dh td q show ?thesis by blast
qed

theorem C2_genesis_td_witness:
  "map_option fst (CommitSnail_td testEnv NewMemDatabase (DefaultGenesisBlock testEnv)) = Some (Some 2147483648)"
proof -
  from testEnv_fast obtain fb gm mem where
    fb: "ToFastBlock testEnv None (DefaultGenesisBlock testEnv) = Ret (fb, gm, mem)" by blast
  have n: "Number (DefaultGenesisBlock testEnv) = 0" by (simp add: DefaultGenesisBlock_def)
  have r: "FruitBlockRatio testEnv \<noteq> 0" by (simp add: testEnv_def)
  from C2_genesis_td [OF n r fb, of NewMemDatabase]
  show ?thesis by (auto simp: CommitSnail_td_def DefaultGenesisBlock_def)
qed

text \<open>
  The claim as stated fails: for the main-net genesis with a fruit ratio of 600 the
  stored total difficulty is 2147483648, while parent.td + block.difficulty + the fruit's
  difficulty is 2147483648 + 3579139.
\<close>

theorem C2_counterexample:
  "CommitSnail_td testEnv NewMemDatabase (DefaultGenesisBlock testEnv) = Some (Some 2147483648, 2151062787)"
proof -
  from testEnv_fast obtain fb gm mem where
    fb: "ToFastBlock testEnv None (DefaultGenesisBlock testEnv) = Ret (fb, gm, mem)" by blast
  have n: "Number (DefaultGenesisBlock testEnv) = 0" by (simp add: DefaultGenesisBlock_def)
  have d: "Difficulty (DefaultGenesisBlock testEnv) = Some 2147483648" by (simp add: DefaultGenesisBlock_def)
  have r: "FruitBlockRatio testEnv \<noteq> 0" by (simp add: testEnv_def)
  have q: "big_Div 2147483648 (FruitBlockRatio testEnv) = Ret 3579139" by (simp add: testEnv_def big_Div_def)
  from CommitSnail_Ret [OF fb n r, of NewMemDatabase] obtain block g1 db1 g' mem' where
    c: "CommitSnail testEnv NewMemDatabase (DefaultGenesisBlock testEnv) = Ret ((Some block, None), g1, db1)"
    and t: "ToSnailBlock testEnv None (DefaultGenesisBlock testEnv) = Ret (block, g', mem')"
    and td: "snail_ReadTd db1 (SnailBlockHash testEnv block) (snail_NumberU64 block) = Some 2147483648"
    and dh: "sh_Difficulty (sb_header block) = Some 2147483648"
    using d by auto
  from ToSnailBlock_Ret [OF fb, of 3579139 None] q d t obtain fruit where
    "sb_fruits block = [fruit]" "sh_FruitDifficulty (sb_header fruit) = Some 3579139" by auto
  then have "spec_totalDifficulty 0 block = 2151062787" using dh by (simp add: spec_totalDifficulty_def)
  then show ?thesis using c td by (simp add: CommitSnail_td_def)
qed

text \<open>
  C3, as amended. When the database already holds a genesis block at height 0 and the
  supplied specification has a chain configuration and a fast block whose hash differs
  from the stored hash, \<open>setupFastGenesisBlock\<close> returns a \<open>GenesisMismatchError\<close> with
  the stored and the new hash, and the database is left exactly as it was.
\<close>

theorem C3_genesis_mismatch:
  assumes "ReadCanonicalHash db 0 = stored" and "stored \<noteq> 0" and "Config g = Some c"
    and "ToFastBlock X None g = Ret (block, g1, mem)" and "BlockHash X block \<noteq> stored"
  shows "setupFastGenesisBlock X db (Some g) =
           Ret ((Some c, BlockHash X block, Some (GenesisMismatchError stored (BlockHash X block))), Some g1, db)"
proof -
  have "Config g1 = Some c" using ToFastBlock_fields [OF assms(4)] assms(3) by simp
  then show ?thesis using assms by (simp add: setupFastGenesisBlock_def)
qed

theorem C3_genesis_mismatch_witness:
  "returned (setupFastGenesisBlock testEnv mainnetDb (Some testnetLikeGenesis)) =
     Some (Some ''testnet'', 1558862721, Some (GenesisMismatchError 16777217 1558862721)) \<and>
   left_db (setupFastGenesisBlock testEnv mainnetDb (Some testnetLikeGenesis)) = Some mainnetDb"
proof -
  have "\<exists>b g1 mem. ToFastBlock testEnv None testnetLikeGenesis = Ret (b, g1, mem) \<and> BlockHash testEnv b = 1558862721"
    by (simp add: testnetLikeGenesis_def ToFastBlock_def Let_def testEnv_def
        DefaultGenesisBlock_def member_def key1_def key2_def key3_def key4_def)
  then obtain b g1 mem where fb: "ToFastBlock testEnv None testnetLikeGenesis = Ret (b, g1, mem)"
    and h: "BlockHash testEnv b = 1558862721" by blast
  have c: "Config testnetLikeGenesis = Some ''testnet''" by (simp add: testnetLikeGenesis_def)
  have ne: "(16777217 :: hash) \<noteq> 0" by simp
  have d: "BlockHash testEnv b \<noteq> 16777217" using h by simp
  from C3_genesis_mismatch [OF mainnetDb_stored ne c fb d] h show ?thesis
    by (simp add: returned_def left_db_def)
qed

text \<open>
  The claim as stated fails for a specification without a chain configuration: the
  guard at the head of the function returns \<open>errGenesisNoConfig\<close> before any hash is
  compared.
\<close>

theorem C3_counterexample:
  "ReadCanonicalHash mainnetDb 0 = 16777217 \<and> fastGenesisHash testEnv noConfigGenesis = Some 5 \<and>
   returned (setupFastGenesisBlock testEnv mainnetDb (Some noConfigGenesis)) = Some (Some ''all'', 0, Some errGenesisNoConfig)"
proof -
  have "fastGenesisHash testEnv noConfigGenesis = Some 5"
    by (simp add: fastGenesisHash_def noConfigGenesis_def ToFastBlock_def Let_def testEnv_def
        DefaultGenesisBlock_def member_def key1_def key2_def key3_def key4_def)
  moreover have "returned (setupFastGenesisBlock testEnv mainnetDb (Some noConfigGenesis)) = Some (Some ''all'', 0, Some errGenesisNoConfig)"
    by (simp add: returned_def setupFastGenesisBlock_def noConfigGenesis_def testEnv_def)
  ultimately show ?thesis using mainnetDb_stored by simp
qed

text \<open>
  C4. For a specification with a non-nil difficulty d, the snail block built by
  \<open>ToSnailBlock\<close> embeds exactly one fruit; its \<open>FruitDifficulty\<close> is the integer
  quotient of d by \<open>FruitBlockRatio\<close> (the q with 0 \<le> d - q * ratio < |ratio|), and its
  \<open>FastNumber\<close> and \<open>FastHash\<close> are the number and the hash of the genesis fast block.
\<close>

theorem C4_fruit:
  assumes "Difficulty g = Some d" and "FruitBlockRatio X \<noteq> 0"
    and "ToFastBlock X None g = Ret (fastBlock, gm, mem)"
  shows "\<exists>head fruit g1 db1 q. ToSnailBlock X dbo g = Ret (SnailBlock head [fruit], g1, db1) \<and>
           sh_FruitDifficulty (sb_header fruit) = Some q \<and>
           big_Div d (FruitBlockRatio X) = Ret q \<and>
           0 \<le> d - q * FruitBlockRatio X \<and> d - q * FruitBlockRatio X < \<bar>FruitBlockRatio X\<bar> \<and>
           sh_FastNumber (sb_header fruit) = Some (h_Number (b_header fastBlock)) \<and>
           sh_FastHash (sb_header fruit) = BlockHash X fastBlock"
proof -
  obtain q where q: "big_Div d (FruitBlockRatio X) = Ret q" "0 \<le> d - q * FruitBlockRatio X"
      "d - q * FruitBlockRatio X < \<bar>FruitBlockRatio X\<bar>"
    using big_Div_Ret [OF assms(2)] by blast
  from ToSnailBlock_Ret [OF assms(3), of q dbo] q(1) assms(1)
  obtain head fruitHead db1 g1 where
    "ToSnailBlock X dbo g = Ret (SnailBlock head [SnailBlock fruitHead []], g1, db1)"
    "sh_FruitDifficulty fruitHead = Some q"
    "sh_FastNumber fruitHead = Some (h_Number (b_header fastBlock))"
    "sh_FastHash fruitHead = BlockHash X fastBlock"
    by auto
  with q show ?thesis by auto
qed

theorem C4_fruit_witness:
  "\<exists>head fruit g1 db1. ToSnailBlock testEnv None (DefaultGenesisBlock testEnv) = Ret (SnailBlock head [fruit], g1, db1) \<and>
     sh_FruitDifficulty (sb_header fruit) = Some 3579139 \<and>
     sh_FastNumber (sb_header fruit) = Some 0 \<and> sh_FastHash (sb_header fruit) = 16777217"
proof -
  from testEnv_fast obtain fb gm mem where
    fb: "ToFastBlock testEnv None (DefaultGenesisBlock testEnv) = Ret (fb, gm, mem)"
    and h: "BlockHash testEnv fb = 16777217" "h_Number (b_header fb) = 0" by blast
  have d: "Difficulty (DefaultGenesisBlock testEnv) = Some 2147483648" by (simp add: DefaultGenesisBlock_def)
  have r: "FruitBlockRatio testEnv \<noteq> 0" by (simp add: testEnv_def)
  have q: "big_Div 2147483648 (FruitBlockRatio testEnv) = Ret 3579139" by (simp add: testEnv_def big_Div_def)
  from C4_fruit [OF d r fb, of None] q h show ?thesis by auto
qed

section \<open>Properties of the node services\<close>

text \<open>
  C5, as amended. Let \<open>New\<close> get as far as the genesis setup, and let the setup return
  an error. If the error is not a \<open>ConfigCompatError\<close>, \<open>New\<close> fails and returns it. If it
  is one, and the consensus engine is created, the database version check passes and
  both chains are constructed, then \<open>New\<close> does not fail on it: it rewinds the fast chain
  and the snail chain to \<open>RewindTo\<close> with \<open>SetHead\<close>, writes the chain configuration after
  each, and can only fail if the protocol manager cannot be created.
\<close>

theorem C5_compat_rewind:
  assumes "SyncMode cfg \<noteq> LightSync S" and "IsValid S (SyncMode cfg)"
    and "OpenDatabase ctx ''chaindata'' = Inr (db, isLDB)"
    and "SetupGenesisBlock X db (c_Genesis cfg) = Ret ((chainCfg, genesisHash, snailHash, Some e), genesis1, db1)"
  shows "((\<forall>c. e \<noteq> CompatError c) \<longrightarrow> (\<exists>cs. tai_New X S ctx cfg = Ret (Inl e, Some db1, cs))) \<and>
         (\<forall>c eng db2 bc sbc.
            e = CompatError c \<and> CreateConsensusEngine S (PowMode cfg) chainCfg = Ret eng \<and>
            (SkipBcVersionCheck cfg \<or> ReadDatabaseVersion db1 = BlockChainVersion S \<or> ReadDatabaseVersion db1 = 0) \<and>
            db2 = (if SkipBcVersionCheck cfg then db1 else WriteDatabaseVersion db1 (BlockChainVersion S)) \<and>
            NewBlockChain S db2 chainCfg = Inr bc \<and> NewSnailBlockChain S db2 chainCfg bc = Inr sbc \<longrightarrow>
            (\<exists>r cs pre post.
               tai_New X S ctx cfg =
                 Ret (r, Some (snail_WriteChainConfig (snail_WriteChainConfig db2 genesisHash chainCfg) genesisHash chainCfg), cs) \<and>
               cs = pre @ [(''BlockChain.SetHead'', [ANum (uint (RewindTo c))]), (''rawdb.WriteChainConfig'', []),
                           (''SnailBlockChain.SetHead'', [ANum (uint (RewindTo c))]), (''rawdb.WriteChainConfig'', [])] @ post \<and>
               (\<forall>err. r = Inl err \<longrightarrow> NewProtocolManager S chainCfg (SyncMode cfg) (NetworkId cfg) = Inl err) \<and>
               (\<forall>t. r = Inr t \<longrightarrow> blockchain t = chain_SetHead (RewindTo c) bc \<and>
                                  snailblockchain t = chain_SetHead (RewindTo c) sbc)))"
proof (intro conjI impI allI)
  assume "\<forall>c. e \<noteq> CompatError c"
  then have "(case Some e of None \<Rightarrow> None | Some (CompatError c) \<Rightarrow> None | Some e \<Rightarrow> Some e) = Some e"
    by (cases e) auto
  then show "\<exists>cs. tai_New X S ctx cfg = Ret (Inl e, Some db1, cs)"
    using assms by (simp add: tai_New_def tai_CreateDB_def)
next
  fix c eng db2 bc sbc
  assume h: "e = CompatError c \<and> CreateConsensusEngine S (PowMode cfg) chainCfg = Ret eng \<and>
            (SkipBcVersionCheck cfg \<or> ReadDatabaseVersion db1 = BlockChainVersion S \<or> ReadDatabaseVersion db1 = 0) \<and>
            db2 = (if SkipBcVersionCheck cfg then db1 else WriteDatabaseVersion db1 (BlockChainVersion S)) \<and>
            NewBlockChain S db2 chainCfg = Inr bc \<and> NewSnailBlockChain S db2 chainCfg bc = Inr sbc"
  let ?four = "[(''BlockChain.SetHead'', [ANum (uint (RewindTo c))]), (''rawdb.WriteChainConfig'', []),
                (''SnailBlockChain.SetHead'', [ANum (uint (RewindTo c))]), (''rawdb.WriteChainConfig'', [])]"
  let ?db3 = "snail_WriteChainConfig (snail_WriteChainConfig db2 genesisHash chainCfg) genesisHash chainCfg"
  let ?pre = "(if isLDB then [(''db.Meter'', [AStr ''tai/db/chaindata/''])] else []) @ [(''NewBloomIndexer'', [])]"
  show "\<exists>r cs pre post.
               tai_New X S ctx cfg = Ret (r, Some ?db3, cs) \<and>
               cs = pre @ ?four @ post \<and>
               (\<forall>err. r = Inl err \<longrightarrow> NewProtocolManager S chainCfg (SyncMode cfg) (NetworkId cfg) = Inl err) \<and>
               (\<forall>t. r = Inr t \<longrightarrow> blockchain t = chain_SetHead (RewindTo c) bc \<and>
                                  snailblockchain t = chain_SetHead (RewindTo c) sbc)"
  proof (cases "NewProtocolManager S chainCfg (SyncMode cfg) (NetworkId cfg)")
    case (Inl err)
    have "tai_New X S ctx cfg = Ret (Inl err, Some ?db3,
        ?pre @ ?four @ [(''ChainIndexer.Start'', []), (''core.NewTxPool'', []),
                                                                 (''chain.NewSnailPool'', []), (''elect.NewElection'', []),
                                                                 (''Engine.SetElection'', []), (''Engine.SetSnailChainReader'', []),
                                                                 (''Election.SetEngine'', []), (''NewPbftAgent'', [])])"
      using assms h Inl by (auto simp: tai_New_def tai_CreateDB_def Let_def)
    then show ?thesis using Inl by blast
  next
    case (Inr dl)
    have "\<exists>t post. tai_New X S ctx cfg = Ret (Inr t, Some ?db3, ?pre @ ?four @ post) \<and>
           blockchain t = chain_SetHead (RewindTo c) bc \<and> snailblockchain t = chain_SetHead (RewindTo c) sbc"
      using assms h Inr by (auto simp: tai_New_def tai_CreateDB_def Let_def)
    then show ?thesis by blast
  qed
qed

theorem C5_compat_rewind_witness:
  "\<exists>t db cs. tai_New testEnv testServices upgradeCtx upgradeConfig = Ret (Inr t, Some db, cs) \<and>
     blockchain t = \<lparr>currentNumber = 1\<rparr> \<and> snailblockchain t = \<lparr>currentNumber = 1\<rparr>"
proof -
  let ?c = "\<lparr>What = ''fork block'', StoredConfig = Some 2, NewConfig = Some 3, RewindTo = 1\<rparr>"
  from upgrade_setup [of upgradeDb "Some 3"] obtain g1 db1 where
    g: "SetupGenesisBlock testEnv upgradeDb (c_Genesis upgradeConfig) =
      Ret ((Some ''upgraded'', 16777217, 1330, Some (CompatError ?c)), g1, db1)"
    by (auto simp: upgradeDb_def)
  have v: "ReadDatabaseVersion db1 = 3"
    using SetupGenesisBlock_version [OF g] by (simp add: upgradeDb_def ReadDatabaseVersion_def)
  have a1: "SyncMode upgradeConfig \<noteq> LightSync testServices"
    and a2: "IsValid testServices (SyncMode upgradeConfig)"
    and a3: "OpenDatabase upgradeCtx ''chaindata'' = Inr (upgradeDb, True)"
    by (simp_all add: upgradeConfig_def testServices_def upgradeCtx_def)
  let ?db2 = "WriteDatabaseVersion db1 3"
  have h: "CompatError ?c = CompatError ?c \<and>
      CreateConsensusEngine testServices (PowMode upgradeConfig) (Some ''upgraded'') = Ret Faker \<and>
      (SkipBcVersionCheck upgradeConfig \<or> ReadDatabaseVersion db1 = BlockChainVersion testServices \<or>
       ReadDatabaseVersion db1 = 0) \<and>
      ?db2 = (if SkipBcVersionCheck upgradeConfig then db1
              else WriteDatabaseVersion db1 (BlockChainVersion testServices)) \<and>
      NewBlockChain testServices ?db2 (Some ''upgraded'') = Inr \<lparr>currentNumber = 4\<rparr> \<and>
      NewSnailBlockChain testServices ?db2 (Some ''upgraded'') \<lparr>currentNumber = 4\<rparr> = Inr \<lparr>currentNumber = 2\<rparr>"
    using v by (simp add: upgradeConfig_def testServices_def CreateConsensusEngine_def)
  from C5_compat_rewind [OF a1 a2 a3 g, THEN conjunct2, rule_format, OF h]
  obtain r cs where
    n: "tai_New testEnv testServices upgradeCtx upgradeConfig =
          Ret (r, Some (snail_WriteChainConfig (snail_WriteChainConfig ?db2 16777217 (Some ''upgraded''))
                 16777217 (Some ''upgraded'')), cs)"
    and e: "\<forall>err. r = Inl err \<longrightarrow>
              NewProtocolManager testServices (Some ''upgraded'') (SyncMode upgradeConfig) (NetworkId upgradeConfig) = Inl err"
    and t: "\<forall>t. r = Inr t \<longrightarrow> blockchain t = chain_SetHead (RewindTo ?c) \<lparr>currentNumber = 4\<rparr> \<and>
                              snailblockchain t = chain_SetHead (RewindTo ?c) \<lparr>currentNumber = 2\<rparr>"
    by blast
  have "\<exists>t. r = Inr t"
  proof (cases r)
    case (Inl err)
    with e show ?thesis by (simp add: testServices_def)
  qed blast
  then obtain t where r: "r = Inr t" by blast
  with t have "blockchain t = \<lparr>currentNumber = 1\<rparr> \<and> snailblockchain t = \<lparr>currentNumber = 1\<rparr>"
    by (simp add: chain_SetHead_def)
  with n r show ?thesis by blast
qed

text \<open>
  The claim as stated fails when a later step stops \<open>New\<close> before the rewind: here the
  genesis setup yields a \<open>ConfigCompatError\<close>, the stored database version is 1 instead
  of 3, and \<open>New\<close> returns the version error without any call of \<open>SetHead\<close>.
\<close>

theorem C5_counterexample:
  "returned (SetupGenesisBlock testEnv staleDb (c_Genesis upgradeConfig)) =
     Some (Some ''upgraded'', 16777217, 1330,
           Some (CompatError \<lparr>What = ''fork block'', StoredConfig = Some 2, NewConfig = Some 3, RewindTo = 1\<rparr>)) \<and>
   New_outcome (tai_New testEnv testServices staleCtx upgradeConfig) =
     Some (Some (ErrVersionMismatch 1 3), [(''db.Meter'', [AStr ''tai/db/chaindata/'']), (''NewBloomIndexer'', [])])"
proof -
  from upgrade_setup [of staleDb "Some 1"] obtain g1 db1 where
    g: "SetupGenesisBlock testEnv staleDb (c_Genesis upgradeConfig) =
      Ret ((Some ''upgraded'', 16777217, 1330,
            Some (CompatError \<lparr>What = ''fork block'', StoredConfig = Some 2, NewConfig = Some 3, RewindTo = 1\<rparr>)),
           g1, db1)"
    by (auto simp: staleDb_def)
  have v: "ReadDatabaseVersion db1 = 1"
    using SetupGenesisBlock_version [OF g] by (simp add: staleDb_def ReadDatabaseVersion_def)
  have sm: "SyncMode upgradeConfig = 0" "PowMode upgradeConfig = ModeFake" "\<not> SkipBcVersionCheck upgradeConfig"
    by (simp_all add: upgradeConfig_def)
  have "New_outcome (tai_New testEnv testServices staleCtx upgradeConfig) =
     Some (Some (ErrVersionMismatch 1 3), [(''db.Meter'', [AStr ''tai/db/chaindata/'']), (''NewBloomIndexer'', [])])"
    using g v sm
    by (simp add: New_outcome_def tai_New_def tai_CreateDB_def staleCtx_def testServices_def
        CreateConsensusEngine_def Let_def)
  then show ?thesis using g by (simp add: returned_def)
qed

text \<open>
  C6, as amended. Let \<open>New\<close> get as far as the version check (the sync mode is accepted,
  the database opens, the genesis setup returns no error or a \<open>ConfigCompatError\<close>, the
  consensus engine is created) with \<open>SkipBcVersionCheck\<close> unset. If the stored version is
  neither 0 nor \<open>core.BlockChainVersion\<close>, \<open>New\<close> returns the version-mismatch error that
  tells the operator to run the upgrade and leaves the stored version as it is. If the
  stored version is 0 or the current one, \<open>New\<close> writes the current version and goes on
  to construct the chains: it can then only fail where a later constructor fails.
\<close>

theorem C6_version_check:
  assumes "SyncMode cfg \<noteq> LightSync S" and "IsValid S (SyncMode cfg)"
    and "OpenDatabase ctx ''chaindata'' = Inr (db, isLDB)"
    and "SetupGenesisBlock X db (c_Genesis cfg) = Ret ((chainCfg, genesisHash, snailHash, genesisErr), genesis1, db1)"
    and "genesisErr = None \<or> (\<exists>c. genesisErr = Some (CompatError c))"
    and "CreateConsensusEngine S (PowMode cfg) chainCfg = Ret eng"
    and "\<not> SkipBcVersionCheck cfg"
  shows "(ReadDatabaseVersion db \<noteq> BlockChainVersion S \<and> ReadDatabaseVersion db \<noteq> 0 \<longrightarrow>
            (\<exists>cs. tai_New X S ctx cfg =
               Ret (Inl (ErrVersionMismatch (ReadDatabaseVersion db) (BlockChainVersion S)), Some db1, cs)) \<and>
            ReadDatabaseVersion db1 = ReadDatabaseVersion db) \<and>
         (ReadDatabaseVersion db = BlockChainVersion S \<or> ReadDatabaseVersion db = 0 \<longrightarrow>
            (\<exists>r db' cs. tai_New X S ctx cfg = Ret (r, Some db', cs) \<and>
               ReadDatabaseVersion db' = BlockChainVersion S \<and>
               (\<forall>err. r = Inl err \<longrightarrow>
                  NewBlockChain S (WriteDatabaseVersion db1 (BlockChainVersion S)) chainCfg = Inl err \<or>
                  (\<exists>bc. NewBlockChain S (WriteDatabaseVersion db1 (BlockChainVersion S)) chainCfg = Inr bc \<and>
                        NewSnailBlockChain S (WriteDatabaseVersion db1 (BlockChainVersion S)) chainCfg bc = Inl err) \<or>
                  NewProtocolManager S chainCfg (SyncMode cfg) (NetworkId cfg) = Inl err)))"
proof -
  have v: "ReadDatabaseVersion db1 = ReadDatabaseVersion db"
    using SetupGenesisBlock_version [OF assms(4)] .
  have nf: "(case genesisErr of None \<Rightarrow> None | Some (CompatError c) \<Rightarrow> None | Some e \<Rightarrow> Some e) = None"
    using assms(5) by auto
  show ?thesis
    using assms(1,2,3,4,6,7) nf v
    by (auto simp: tai_New_def tai_CreateDB_def Let_def ReadDatabaseVersion_Write
        snail_WriteChainConfig_version split: sum.splits option.splits)
qed

theorem C6_version_check_witness:
  "map_option fst (New_outcome (tai_New testEnv testServices staleCtx upgradeConfig)) =
     Some (Some (ErrVersionMismatch 1 3))"
proof -
  let ?c = "\<lparr>What = ''fork block'', StoredConfig = Some 2, NewConfig = Some 3, RewindTo = 1\<rparr>"
  from upgrade_setup [of staleDb "Some 1"] obtain g1 db1 where
    g: "SetupGenesisBlock testEnv staleDb (c_Genesis upgradeConfig) =
      Ret ((Some ''upgraded'', 16777217, 1330, Some (CompatError ?c)), g1, db1)"
    by (auto simp: staleDb_def)
  have a1: "SyncMode upgradeConfig \<noteq> LightSync testServices"
    and a2: "IsValid testServices (SyncMode upgradeConfig)"
    and a3: "OpenDatabase staleCtx ''chaindata'' = Inr (staleDb, True)"
    and a5: "Some (CompatError ?c) = None \<or> (\<exists>c. Some (CompatError ?c) = Some (CompatError c))"
    and a6: "CreateConsensusEngine testServices (PowMode upgradeConfig) (Some ''upgraded'') = Ret Faker"
    and a7: "\<not> SkipBcVersionCheck upgradeConfig"
    by (simp_all add: upgradeConfig_def testServices_def staleCtx_def CreateConsensusEngine_def)
  have v: "ReadDatabaseVersion staleDb = 1" "BlockChainVersion testServices = 3"
    by (simp_all add: staleDb_def ReadDatabaseVersion_def testServices_def)
  from C6_version_check [OF a1 a2 a3 g a5 a6 a7] v show ?thesis
    by (auto simp: New_outcome_def)
qed

text \<open>
  The claim as stated fails when an earlier check stops \<open>New\<close>: with a stored version of
  1 and the light sync mode, \<open>New\<close> returns the light-sync error, not the version error.
\<close>

theorem C6_counterexample:
  "ReadDatabaseVersion staleDb = 1 \<and> BlockChainVersion testServices = 3 \<and>
   SkipBcVersionCheck lightConfig = False \<and>
   New_outcome (tai_New testEnv testServices staleCtx lightConfig) =
     Some (Some (ErrLightSync ''can't run tai.Taichain in light sync mode, use les.LightTruechain''), [])"
  by (simp add: staleDb_def ReadDatabaseVersion_def testServices_def lightConfig_def upgradeConfig_def
      New_outcome_def tai_New_def)

text \<open>
  C7. The code at a message with code \<open>GetFastBlockBodiesMsg\<close>: \<open>ReadMsg\<close> marks the head
  meters, and \<open>WriteMsg\<close> marks the inbound head packet meter and the outbound head
  traffic meter; the body meters stay untouched on both paths.
\<close>

theorem C7_GetFastBlockBodies_meters:
  "ReadMsg_meters GetFastBlockBodiesMsg = (getHeadInPacketsMeter, getHeadInTrafficMeter) \<and>
   WriteMsg_meters GetFastBlockBodiesMsg = (getHeadInPacketsMeter, getHeadOutTrafficMeter) \<and>
   snd (ReadMsg (\<lparr>Code = GetFastBlockBodiesMsg, Size = 100\<rparr>, None) (\<lambda>m. 0)) getHeadInPacketsMeter = 1 \<and>
   snd (ReadMsg (\<lparr>Code = GetFastBlockBodiesMsg, Size = 100\<rparr>, None) (\<lambda>m. 0)) getHeadInTrafficMeter = 100 \<and>
   snd (ReadMsg (\<lparr>Code = GetFastBlockBodiesMsg, Size = 100\<rparr>, None) (\<lambda>m. 0)) getBodyInPacketsMeter = 0 \<and>
   snd (ReadMsg (\<lparr>Code = GetFastBlockBodiesMsg, Size = 100\<rparr>, None) (\<lambda>m. 0)) getBodyInTrafficMeter = 0 \<and>
   snd (WriteMsg \<lparr>Code = GetFastBlockBodiesMsg, Size = 100\<rparr> None (\<lambda>m. 0)) getHeadInPacketsMeter = 1 \<and>
   snd (WriteMsg \<lparr>Code = GetFastBlockBodiesMsg, Size = 100\<rparr> None (\<lambda>m. 0)) getHeadOutTrafficMeter = 100 \<and>
   snd (WriteMsg \<lparr>Code = GetFastBlockBodiesMsg, Size = 100\<rparr> None (\<lambda>m. 0)) getBodyOutPacketsMeter = 0 \<and>
   snd (WriteMsg \<lparr>Code = GetFastBlockBodiesMsg, Size = 100\<rparr> None (\<lambda>m. 0)) getBodyOutTrafficMeter = 0"
proof -
  have r: "ReadMsg_meters GetFastBlockBodiesMsg = (getHeadInPacketsMeter, getHeadInTrafficMeter)"
    by (simp add: ReadMsg_meters_def GetFastBlockBodiesMsg_def FastBlockHeadersMsg_def
        SnailBlockHeadersMsg_def FastBlockBodiesMsg_def SnailBlockBodiesMsg_def NodeDataMsg_def
        ReceiptsMsg_def NewFastBlockHashesMsg_def NewSnailBlockHashesMsg_def NewFastBlockMsg_def
        NewSnailBlockMsg_def TxMsg_def NewFruitMsg_def TbftNodeInfoMsg_def TbftNodeInfoHashMsg_def
        GetTbftNodeInfoMsg_def GetFastBlockHeadersMsg_def)
  have w: "WriteMsg_meters GetFastBlockBodiesMsg = (getHeadInPacketsMeter, getHeadOutTrafficMeter)"
    by (simp add: WriteMsg_meters_def GetFastBlockBodiesMsg_def FastBlockHeadersMsg_def
        SnailBlockHeadersMsg_def FastBlockBodiesMsg_def SnailBlockBodiesMsg_def NodeDataMsg_def
        ReceiptsMsg_def NewFastBlockHashesMsg_def NewSnailBlockHashesMsg_def NewFastBlockMsg_def
        NewSnailBlockMsg_def TxMsg_def NewFruitMsg_def TbftNodeInfoMsg_def TbftNodeInfoHashMsg_def
        GetTbftNodeInfoMsg_def GetFastBlockHeadersMsg_def)
  show ?thesis
    by (simp add: r w ReadMsg_def WriteMsg_def Mark_def getHeadInPacketsMeter_def
        getHeadInTrafficMeter_def getHeadOutTrafficMeter_def getBodyInPacketsMeter_def
        getBodyInTrafficMeter_def getBodyOutPacketsMeter_def getBodyOutTrafficMeter_def)
qed

text \<open>Rewinding a chain leaves its head at the smaller of the two numbers.\<close>

lemma chain_SetHead_min: "currentNumber (chain_SetHead n c) = min n (currentNumber c)"
  by (auto simp: chain_SetHead_def min_def)

text \<open>
  C8. \<open>SetHead(n)\<close> on the API backend of the full node first cancels the downloader and
  then rewinds the fast chain, and leaves the snail chain as it is; \<open>SetSnailHead(n)\<close>
  cancels the downloader and rewinds the snail chain, and leaves the fast chain as it is.
\<close>

theorem C8_SetHead_frame:
  "snailblockchain (fst (TrueAPIBackend_SetHead n s)) = snailblockchain s \<and>
   blockchain (fst (TrueAPIBackend_SetHead n s)) = chain_SetHead n (blockchain s) \<and>
   currentNumber (blockchain (fst (TrueAPIBackend_SetHead n s))) = min n (currentNumber (blockchain s)) \<and>
   downloader (fst (TrueAPIBackend_SetHead n s)) = Downloader_Cancel (downloader s) \<and>
   synchronising (downloader (fst (TrueAPIBackend_SetHead n s))) = False \<and>
   snd (TrueAPIBackend_SetHead n s) = [(''Downloader.Cancel'', []), (''BlockChain.SetHead'', [ANum (uint n)])] \<and>
   blockchain (fst (TrueAPIBackend_SetSnailHead n s)) = blockchain s \<and>
   snailblockchain (fst (TrueAPIBackend_SetSnailHead n s)) = chain_SetHead n (snailblockchain s) \<and>
   currentNumber (snailblockchain (fst (TrueAPIBackend_SetSnailHead n s))) = min n (currentNumber (snailblockchain s)) \<and>
   downloader (fst (TrueAPIBackend_SetSnailHead n s)) = Downloader_Cancel (downloader s) \<and>
   synchronising (downloader (fst (TrueAPIBackend_SetSnailHead n s))) = False \<and>
   snd (TrueAPIBackend_SetSnailHead n s) = [(''Downloader.Cancel'', []), (''SnailBlockChain.SetHead'', [ANum (uint n)])]"
  by (simp add: TrueAPIBackend_SetHead_def TrueAPIBackend_SetSnailHead_def Let_def chain_SetHead_min
      Downloader_Cancel_def)

theorem C8_SetHead_frame_witness:
  "currentNumber (blockchain (fst (TrueAPIBackend_SetHead 3 testNode))) = 3 \<and>
   currentNumber (snailblockchain (fst (TrueAPIBackend_SetHead 3 testNode))) = 5 \<and>
   currentNumber (blockchain (fst (TrueAPIBackend_SetSnailHead 3 testNode))) = 10 \<and>
   currentNumber (snailblockchain (fst (TrueAPIBackend_SetSnailHead 3 testNode))) = 3"
  using C8_SetHead_frame [of 3 testNode] by (simp add: testNode_def chain_SetHead_def)

text \<open>The two packages agree, step by step.\<close>

lemma call_renamed_same: "call_renamed c c"
  by (simp add: call_renamed_def)

lemma call_renamed_refl: "list_all2 call_renamed cs cs"
  by (simp add: list_all2_refl call_renamed_same)

lemma call_renamed_meter:
  "call_renamed (''db.Meter'', [AStr ''tai/db/chaindata/'']) (''db.Meter'', [AStr ''etrue/db/chaindata/''])"
  by (simp add: call_renamed_def)

lemma startPbftServer_same: "etrue_startPbftServer S s = tai_startPbftServer S s"
  by (simp add: etrue_startPbftServer_def tai_startPbftServer_def)

lemma Start_same: "etrue_Start S srvr s = tai_Start S srvr s"
  by (simp add: etrue_Start_def tai_Start_def startPbftServer_same Let_def)

lemma stopPbftServer_same: "etrue_stopPbftServer s = tai_stopPbftServer s"
  by (simp add: etrue_stopPbftServer_def tai_stopPbftServer_def)

lemma Stop_same: "etrue_Stop s = tai_Stop s"
  by (simp add: etrue_Stop_def tai_Stop_def stopPbftServer_same Let_def)

lemma Etherbase_same: "etrue_Etherbase s = tai_Etherbase s"
  by (simp add: etrue_Etherbase_def tai_Etherbase_def)

lemma StartMining_same: "etrue_StartMining local s = tai_StartMining local s"
  by (simp add: etrue_StartMining_def tai_StartMining_def Etherbase_same)

lemmas New_defs = tai_New_def etrue_New_def tai_CreateDB_def etrue_CreateDB_def Let_def
  New_renamed_def error_renamed_def call_renamed_refl call_renamed_same call_renamed_meter

lemma New_renamed_both:
  "New_renamed (tai_New X S ctx cfg) (etrue_New X S ctx cfg)"
proof (cases "SyncMode cfg = LightSync S")
  case True
  then show ?thesis by (simp add: New_defs)
next
  case nl: False
  show ?thesis
  proof (cases "IsValid S (SyncMode cfg)")
    case False
    with nl show ?thesis by (simp add: New_defs)
  next
    case v: True
    show ?thesis
    proof (cases "OpenDatabase ctx ''chaindata''")
      case (Inl err)
      with nl v show ?thesis by (simp add: New_defs)
    next
      case (Inr p)
      obtain db isLDB where "p = (db, isLDB)" by (cases p)
      with Inr have op: "OpenDatabase ctx ''chaindata'' = Inr (db, isLDB)" by simp
      show ?thesis
      proof (cases "SetupGenesisBlock X db (c_Genesis cfg)")
        case Panic
        with nl v op show ?thesis by (simp add: New_defs)
      next
        case (Ret r)
        obtain a genesis1 db1 where r1: "r = (a, genesis1, db1)" by (cases r)
        obtain chainCfg genesisHash snailHash genesisErr where
          r2: "a = (chainCfg, genesisHash, snailHash, genesisErr)" by (cases a)
        from Ret r1 r2 have g: "SetupGenesisBlock X db (c_Genesis cfg) =
            Ret ((chainCfg, genesisHash, snailHash, genesisErr), genesis1, db1)" by simp
        show ?thesis
        proof (cases "case genesisErr of None \<Rightarrow> None | Some (CompatError c) \<Rightarrow> None | Some e \<Rightarrow> Some e")
          case (Some e)
          with nl v op g show ?thesis by (simp add: New_defs)
        next
          case nf: None
          show ?thesis
          proof (cases "CreateConsensusEngine S (PowMode cfg) chainCfg")
            case Panic
            with nl v op g nf show ?thesis by (simp add: New_defs)
          next
            case eng: (Ret eng)
            show ?thesis
            proof (cases "\<not> SkipBcVersionCheck cfg \<and> ReadDatabaseVersion db1 \<noteq> BlockChainVersion S \<and>
                          ReadDatabaseVersion db1 \<noteq> 0")
              case True
              with nl v op g nf eng show ?thesis by (simp add: New_defs)
            next
              case ver: False
              let ?db2 = "if SkipBcVersionCheck cfg then db1 else WriteDatabaseVersion db1 (BlockChainVersion S)"
              show ?thesis
              proof (cases "NewBlockChain S ?db2 chainCfg")
                case (Inl err)
                with nl v op g nf eng ver show ?thesis by (auto simp: New_defs)
              next
                case bc: (Inr bc)
                show ?thesis
                proof (cases "NewSnailBlockChain S ?db2 chainCfg bc")
                  case (Inl err)
                  with nl v op g nf eng ver bc show ?thesis by (auto simp: New_defs)
                next
                  case sbc: (Inr sbc)
                  show ?thesis
                  proof (cases "NewProtocolManager S chainCfg (SyncMode cfg) (NetworkId cfg)")
                    case (Inl err)
                    with nl v op g nf eng ver bc sbc show ?thesis by (auto simp: New_defs)
                  next
                    case (Inr dl)
                    with nl v op g nf eng ver bc sbc show ?thesis by (auto simp: New_defs)
                  qed
                qed
              qed
            qed
          qed
        qed
      qed
    qed
  qed
qed

lemma New_renamed_accepts:
  assumes "New_renamed r1 r2"
  shows "accepts r1 = accepts r2"
proof (cases r1)
  case r1: Panic
  show ?thesis
  proof (cases r2)
    case Panic
    with r1 show ?thesis by simp
  next
    case (Ret p2)
    obtain a2 d2 cs2 where "p2 = (a2, d2, cs2)" by (cases p2)
    with assms r1 Ret show ?thesis by (cases a2) (simp_all add: New_renamed_def)
  qed
next
  case r1: (Ret p1)
  obtain a1 d1 cs1 where p1: "p1 = (a1, d1, cs1)" by (cases p1)
  show ?thesis
  proof (cases r2)
    case Panic
    with assms r1 p1 show ?thesis by (cases a1) (simp_all add: New_renamed_def)
  next
    case r2: (Ret p2)
    obtain a2 d2 cs2 where p2: "p2 = (a2, d2, cs2)" by (cases p2)
    from assms r1 r2 p1 p2 show ?thesis
      by (cases a1; cases a2) (simp_all add: New_renamed_def accepts_def)
  qed
qed

text \<open>
  C9. Given the same collaborators, \<open>New\<close> of package tai and \<open>New\<close> of package etrue
  return the same result up to the renaming of the package (the light-sync message and
  the database meter prefix): they fail at the same check with the same error or build
  the same node, and so accept and reject the same configurations; \<open>Start\<close>, \<open>Stop\<close> and
  \<open>StartMining\<close> of the two packages are equal.
\<close>

theorem C9_tai_etrue_equivalent:
  "New_renamed (tai_New X S ctx cfg) (etrue_New X S ctx cfg) \<and>
   accepts (etrue_New X S ctx cfg) = accepts (tai_New X S ctx cfg) \<and>
   etrue_Start S srvr s = tai_Start S srvr s \<and>
   etrue_Stop s = tai_Stop s \<and>
   etrue_StartMining local s = tai_StartMining local s"
  using New_renamed_both [of X S ctx cfg] New_renamed_accepts [of "tai_New X S ctx cfg" "etrue_New X S ctx cfg"]
  by (simp add: Start_same Stop_same StartMining_same)

theorem C9_tai_etrue_equivalent_witness:
  "New_renamed (tai_New testEnv testServices staleCtx lightConfig) (etrue_New testEnv testServices staleCtx lightConfig) \<and>
   accepts (etrue_New testEnv testServices staleCtx lightConfig) = False \<and>
   New_outcome (etrue_New testEnv testServices staleCtx lightConfig) =
     Some (Some (ErrLightSync ''can't run etrue.Taichain in light sync mode, use les.LightTruechain''), [])"
proof -
  have "accepts (tai_New testEnv testServices staleCtx lightConfig) = False"
    by (simp add: accepts_def tai_New_def lightConfig_def upgradeConfig_def testServices_def)
  moreover have "New_outcome (etrue_New testEnv testServices staleCtx lightConfig) =
     Some (Some (ErrLightSync ''can't run etrue.Taichain in light sync mode, use les.LightTruechain''), [])"
    by (simp add: New_outcome_def etrue_New_def lightConfig_def upgradeConfig_def testServices_def)
  ultimately show ?thesis
    using C9_tai_etrue_equivalent [of testEnv testServices staleCtx lightConfig] by simp
qed

text \<open>
  C10. On a light node the snail-chain and committee queries of the API backend return
  an empty result without error for every input, \<open>SnailPoolStats\<close> returns (0, 0), and
  \<open>SetSnailHead\<close> changes nothing and calls nothing.
\<close>

theorem C10_light_snail_queries:
  "LesApiBackend_CurrentSnailBlock b = None \<and>
   LesApiBackend_SnailHeaderByNumber b blockNr = (None, None) \<and>
   LesApiBackend_SnailBlockByNumber b blockNr = (None, None) \<and>
   LesApiBackend_GetSnailBlock b h = (None, None) \<and>
   LesApiBackend_GetFruit b h = (None, None) \<and>
   LesApiBackend_GetCommittee b blockNr = (None, None) \<and>
   LesApiBackend_GetCurrentCommitteeNumber b = None \<and>
   LesApiBackend_SnailPoolContent b = None \<and>
   LesApiBackend_SnailPoolInspect b = None \<and>
   LesApiBackend_SnailPoolStats b = (0, 0) \<and>
   LesApiBackend_SetSnailHead n b = (b, [])"
  by (simp add: LesApiBackend_CurrentSnailBlock_def LesApiBackend_SnailHeaderByNumber_def
      LesApiBackend_SnailBlockByNumber_def LesApiBackend_GetSnailBlock_def LesApiBackend_GetFruit_def
      LesApiBackend_GetCommittee_def LesApiBackend_GetCurrentCommitteeNumber_def
      LesApiBackend_SnailPoolContent_def LesApiBackend_SnailPoolInspect_def
      LesApiBackend_SnailPoolStats_def LesApiBackend_SetSnailHead_def)

end
